theory Spec2Isabelle
  imports Main "HOL-Library.Word"
begin

unbundle bit_operations_syntax

section \<open>Go values shared by the package\<close>

text \<open>
  A Go \<open>error\<close> value is represented by the message its \<open>Error()\<close> method returns;
  \<open>errors.New\<close> and \<open>fmt.Errorf\<close> both build one. A nil \<open>error\<close> is \<open>None\<close> of
  \<open>error option\<close>.
\<close>

datatype error = Error string

fun error_message :: "error \<Rightarrow> string" where
  "error_message (Error m) = m"

text \<open>
  Values of the empty interface \<open>any\<close>, as far as the package stores them: results of
  handlers and error context data. \<open>ANil\<close> is the nil interface.
\<close>

datatype any =
    ANil
  | ABool bool
  | AInt int
  | AString string
  | AList "any list"
  | AMap "(string \<times> any) list"

text \<open>
  What a call of a Go function of result type \<open>(*T, error)\<close> does: it returns a value
  with a nil error, returns a non-nil error with no value, or panics (here only ever by
  dereferencing a nil pointer).
\<close>

datatype 'a outcome = Ok 'a | Err error | Panic

section \<open>response.go\<close>

definition ResponseTypeReceived :: string where
  "ResponseTypeReceived = ''ui-message-received''"

definition ResponseTypeResponse :: string where
  "ResponseTypeResponse = ''ui-message-response''"

record ResponseError =
  ResponseError_Message :: string
  ResponseError_Code :: string
  ResponseError_Data :: any

record ResponsePayload =
  ResponsePayload_Response :: any
  ResponsePayload_Error :: "ResponseError option"

record UIResponse =
  UIResponse_Type :: string
  UIResponse_MessageID :: string
  UIResponse_Payload :: "ResponsePayload option"

definition NewReceivedResponse :: "string \<Rightarrow> UIResponse" where
  "NewReceivedResponse messageID =
     \<lparr>UIResponse_Type = ResponseTypeReceived,
      UIResponse_MessageID = messageID,
      UIResponse_Payload = None\<rparr>"

definition NewSuccessResponse :: "string \<Rightarrow> any \<Rightarrow> UIResponse" where
  "NewSuccessResponse messageID result =
     \<lparr>UIResponse_Type = ResponseTypeResponse,
      UIResponse_MessageID = messageID,
      UIResponse_Payload =
        Some \<lparr>ResponsePayload_Response = result, ResponsePayload_Error = None\<rparr>\<rparr>"

definition NewErrorResponse :: "string \<Rightarrow> error \<Rightarrow> UIResponse" where
  "NewErrorResponse messageID err =
     \<lparr>UIResponse_Type = ResponseTypeResponse,
      UIResponse_MessageID = messageID,
      UIResponse_Payload =
        Some \<lparr>ResponsePayload_Response = ANil,
              ResponsePayload_Error =
                Some \<lparr>ResponseError_Message = error_message err,
                      ResponseError_Code = [],
                      ResponseError_Data = ANil\<rparr>\<rparr>\<rparr>"

definition IsSuccess :: "UIResponse \<Rightarrow> bool" where
  "IsSuccess r =
     (if UIResponse_Type r = ResponseTypeReceived then True
      else (case UIResponse_Payload r of
              None \<Rightarrow> False
            | Some p \<Rightarrow> ResponsePayload_Error p = None))"

definition IsError :: "UIResponse \<Rightarrow> bool" where
  "IsError r =
     (UIResponse_Type r = ResponseTypeResponse \<and>
      (case UIResponse_Payload r of
         None \<Rightarrow> False
       | Some p \<Rightarrow> ResponsePayload_Error p \<noteq> None))"

section \<open>handler.go: results\<close>

record UIActionResult =
  UIActionResult_Response :: any
  UIActionResult_Error :: "error option"

definition ToUIResponse :: "UIActionResult \<Rightarrow> string \<Rightarrow> UIResponse" where
  "ToUIResponse r messageID =
     (case UIActionResult_Error r of
        Some err \<Rightarrow> NewErrorResponse messageID err
      | None \<Rightarrow> NewSuccessResponse messageID (UIActionResult_Response r))"

section \<open>action.go\<close>

definition ActionTypeTool :: string where "ActionTypeTool = ''tool''"
definition ActionTypeIntent :: string where "ActionTypeIntent = ''intent''"
definition ActionTypePrompt :: string where "ActionTypePrompt = ''prompt''"
definition ActionTypeNotify :: string where "ActionTypeNotify = ''notify''"
definition ActionTypeLink :: string where "ActionTypeLink = ''link''"
definition ActionTypeUISize :: string where "ActionTypeUISize = ''ui-size-change''"

text \<open>
  \<open>UIAction.Payload\<close> is a \<open>json.RawMessage\<close>: the undecoded bytes of the payload.
\<close>

record UIAction =
  UIAction_Type :: string
  UIAction_MessageID :: string
  UIAction_Payload :: string

record ToolActionPayload =
  ToolActionPayload_ToolName :: string
  ToolActionPayload_Params :: "(string \<times> any) list"

record IntentActionPayload =
  IntentActionPayload_Intent :: string
  IntentActionPayload_Params :: "(string \<times> any) list"

record PromptActionPayload =
  PromptActionPayload_Prompt :: string

record NotifyActionPayload =
  NotifyActionPayload_Message :: string
  NotifyActionPayload_Level :: string

record LinkActionPayload =
  LinkActionPayload_URL :: string

record UISizeActionPayload =
  UISizeActionPayload_Height :: int
  UISizeActionPayload_Width :: int

text \<open>
  \<open>json.Unmarshal\<close> belongs to Go's standard library, not to this package. The package
  calls it at six types, on the raw payload and a zero-valued record; the model takes
  these six decoders as a parameter. Each returns the filled record or the decoder's
  error.
\<close>

record Unmarshal =
  Unmarshal_Tool :: "string \<Rightarrow> error + ToolActionPayload"
  Unmarshal_Intent :: "string \<Rightarrow> error + IntentActionPayload"
  Unmarshal_Prompt :: "string \<Rightarrow> error + PromptActionPayload"
  Unmarshal_Notify :: "string \<Rightarrow> error + NotifyActionPayload"
  Unmarshal_Link :: "string \<Rightarrow> error + LinkActionPayload"
  Unmarshal_UISize :: "string \<Rightarrow> error + UISizeActionPayload"

text \<open>
  \<open>ParsePayload\<close> returns \<open>any\<close> holding a pointer to one of the six payload records;
  the dynamic type of that pointer is the constructor here.
\<close>

datatype payload =
    PTool ToolActionPayload
  | PIntent IntentActionPayload
  | PPrompt PromptActionPayload
  | PNotify NotifyActionPayload
  | PLink LinkActionPayload
  | PUISize UISizeActionPayload

definition ParsePayload :: "Unmarshal \<Rightarrow> UIAction \<Rightarrow> error + payload" where
  "ParsePayload js a =
     (if UIAction_Type a = ActionTypeTool then
        (case Unmarshal_Tool js (UIAction_Payload a) of
           Inl err \<Rightarrow> Inl (Error (''invalid tool payload: '' @ error_message err))
         | Inr p \<Rightarrow> Inr (PTool p))
      else if UIAction_Type a = ActionTypeIntent then
        (case Unmarshal_Intent js (UIAction_Payload a) of
           Inl err \<Rightarrow> Inl (Error (''invalid intent payload: '' @ error_message err))
         | Inr p \<Rightarrow> Inr (PIntent p))
      else if UIAction_Type a = ActionTypePrompt then
        (case Unmarshal_Prompt js (UIAction_Payload a) of
           Inl err \<Rightarrow> Inl (Error (''invalid prompt payload: '' @ error_message err))
         | Inr p \<Rightarrow> Inr (PPrompt p))
      else if UIAction_Type a = ActionTypeNotify then
        (case Unmarshal_Notify js (UIAction_Payload a) of
           Inl err \<Rightarrow> Inl (Error (''invalid notify payload: '' @ error_message err))
         | Inr p \<Rightarrow> Inr (PNotify p))
      else if UIAction_Type a = ActionTypeLink then
        (case Unmarshal_Link js (UIAction_Payload a) of
           Inl err \<Rightarrow> Inl (Error (''invalid link payload: '' @ error_message err))
         | Inr p \<Rightarrow> Inr (PLink p))
      else if UIAction_Type a = ActionTypeUISize then
        (case Unmarshal_UISize js (UIAction_Payload a) of
           Inl err \<Rightarrow> Inl (Error (''invalid ui-size-change payload: '' @ error_message err))
         | Inr p \<Rightarrow> Inr (PUISize p))
      else Inl (Error (''unknown action type: '' @ UIAction_Type a)))"

definition ToolPayload :: "Unmarshal \<Rightarrow> UIAction \<Rightarrow> error + ToolActionPayload" where
  "ToolPayload js a =
     (if UIAction_Type a \<noteq> ActionTypeTool
      then Inl (Error (''action type is '' @ UIAction_Type a @ '', not tool''))
      else Unmarshal_Tool js (UIAction_Payload a))"

definition IntentPayload :: "Unmarshal \<Rightarrow> UIAction \<Rightarrow> error + IntentActionPayload" where
  "IntentPayload js a =
     (if UIAction_Type a \<noteq> ActionTypeIntent
      then Inl (Error (''action type is '' @ UIAction_Type a @ '', not intent''))
      else Unmarshal_Intent js (UIAction_Payload a))"

definition PromptPayload :: "Unmarshal \<Rightarrow> UIAction \<Rightarrow> error + PromptActionPayload" where
  "PromptPayload js a =
     (if UIAction_Type a \<noteq> ActionTypePrompt
      then Inl (Error (''action type is '' @ UIAction_Type a @ '', not prompt''))
      else Unmarshal_Prompt js (UIAction_Payload a))"

definition NotifyPayload :: "Unmarshal \<Rightarrow> UIAction \<Rightarrow> error + NotifyActionPayload" where
  "NotifyPayload js a =
     (if UIAction_Type a \<noteq> ActionTypeNotify
      then Inl (Error (''action type is '' @ UIAction_Type a @ '', not notify''))
      else Unmarshal_Notify js (UIAction_Payload a))"

definition LinkPayload :: "Unmarshal \<Rightarrow> UIAction \<Rightarrow> error + LinkActionPayload" where
  "LinkPayload js a =
     (if UIAction_Type a \<noteq> ActionTypeLink
      then Inl (Error (''action type is '' @ UIAction_Type a @ '', not link''))
      else Unmarshal_Link js (UIAction_Payload a))"

definition UISizePayload :: "Unmarshal \<Rightarrow> UIAction \<Rightarrow> error + UISizeActionPayload" where
  "UISizePayload js a =
     (if UIAction_Type a \<noteq> ActionTypeUISize
      then Inl (Error (''action type is '' @ UIAction_Type a @ '', not ui-size-change''))
      else Unmarshal_UISize js (UIAction_Payload a))"

section \<open>handler.go: requests, the router and the adapters\<close>

record UIActionRequest =
  UIActionRequest_Action :: "UIAction option"
  UIActionRequest_ResourceURI :: string
  UIActionRequest_Session :: any

text \<open>
  A handler is a Go closure: besides returning, it may change the collaborator's state
  (the tests record calls in captured variables). The model threads that state, of an
  arbitrary type \<open>'s\<close>, through every call, so that a call that is not made leaves the
  state as it was. The \<open>context.Context\<close> argument is passed through untouched by the
  package and is left out. Registered handlers are non-nil functions.

  The narrow handlers return Go's pair \<open>(any, error)\<close>, or just \<open>error\<close>.
\<close>

type_synonym 's UIActionHandler = "UIActionRequest \<Rightarrow> 's \<Rightarrow> UIActionResult outcome \<times> 's"

type_synonym 's ToolHandler =
  "string \<Rightarrow> (string \<times> any) list \<Rightarrow> 's \<Rightarrow> (any \<times> error option) \<times> 's"
type_synonym 's IntentHandler =
  "string \<Rightarrow> (string \<times> any) list \<Rightarrow> 's \<Rightarrow> (any \<times> error option) \<times> 's"
type_synonym 's PromptHandler = "string \<Rightarrow> 's \<Rightarrow> (any \<times> error option) \<times> 's"
type_synonym 's NotifyHandler = "string \<Rightarrow> string \<Rightarrow> 's \<Rightarrow> error option \<times> 's"
type_synonym 's LinkHandler = "string \<Rightarrow> 's \<Rightarrow> error option \<times> 's"
type_synonym 's UISizeHandler = "int \<Rightarrow> int \<Rightarrow> 's \<Rightarrow> error option \<times> 's"

record 's Router =
  typeHandlers :: "string \<rightharpoonup> 's UIActionHandler"
  resourceHandlers :: "string \<rightharpoonup> 's UIActionHandler"
  defaultHandler :: "'s UIActionHandler option"

definition NewRouter :: "'s Router" where
  "NewRouter = \<lparr>typeHandlers = Map.empty, resourceHandlers = Map.empty, defaultHandler = None\<rparr>"

definition HandleType :: "'s Router \<Rightarrow> string \<Rightarrow> 's UIActionHandler \<Rightarrow> 's Router" where
  "HandleType r actionType handler = r\<lparr>typeHandlers := (typeHandlers r)(actionType \<mapsto> handler)\<rparr>"

definition HandleResource :: "'s Router \<Rightarrow> string \<Rightarrow> 's UIActionHandler \<Rightarrow> 's Router" where
  "HandleResource r resourceURI handler =
     r\<lparr>resourceHandlers := (resourceHandlers r)(resourceURI \<mapsto> handler)\<rparr>"

definition SetDefault :: "'s Router \<Rightarrow> 's UIActionHandler \<Rightarrow> 's Router" where
  "SetDefault r handler = r\<lparr>defaultHandler := Some handler\<rparr>"

text \<open>
  The verb \<open>%q\<close> of \<open>fmt.Errorf\<close> prints a string as \<open>strconv.Quote\<close> does: between
  double quotes, with the double quote, the backslash and the ASCII control characters
  escaped. Bytes from \<open>0x80\<close> on are copied, as \<open>strconv.Quote\<close> does for printable
  non-ASCII text (its \<open>\u\<close> escapes for unprintable runes are not modelled).
\<close>

definition hex_digit :: "nat \<Rightarrow> char" where
  "hex_digit n = ''0123456789abcdef'' ! (n mod 16)"

definition quote_char :: "char \<Rightarrow> string" where
  "quote_char c =
     (if c = CHR 0x22 then [CHR 0x5C, CHR 0x22]
      else if c = CHR 0x5C then [CHR 0x5C, CHR 0x5C]
      else if c = CHR 0x07 then [CHR 0x5C, CHR ''a'']
      else if c = CHR 0x08 then [CHR 0x5C, CHR ''b'']
      else if c = CHR 0x0C then [CHR 0x5C, CHR ''f'']
      else if c = CHR 0x0A then [CHR 0x5C, CHR ''n'']
      else if c = CHR 0x0D then [CHR 0x5C, CHR ''r'']
      else if c = CHR 0x09 then [CHR 0x5C, CHR ''t'']
      else if c = CHR 0x0B then [CHR 0x5C, CHR ''v'']
      else if (of_char c :: nat) < 0x20 \<or> c = CHR 0x7F
        then [CHR 0x5C, CHR ''x'', hex_digit (of_char c div 16), hex_digit (of_char c)]
      else [c])"

definition strconv_Quote :: "string \<Rightarrow> string" where
  "strconv_Quote s = [CHR 0x22] @ concat (map quote_char s) @ [CHR 0x22]"

text \<open>
  \<open>Dispatch\<close>. The read lock is not modelled: a dispatch reads the registries once.
  The last statement reads \<open>req.Action.Type\<close> with no nil check, so it dereferences a
  nil pointer when the action is absent.
\<close>

definition Dispatch :: "'s Router \<Rightarrow> UIActionRequest \<Rightarrow> 's \<Rightarrow> UIActionResult outcome \<times> 's" where
  "Dispatch r req s =
     (case (if UIActionRequest_ResourceURI req \<noteq> []
            then resourceHandlers r (UIActionRequest_ResourceURI req) else None) of
        Some handler \<Rightarrow> handler req s
      | None \<Rightarrow>
         (case (case UIActionRequest_Action req of
                  Some a \<Rightarrow> typeHandlers r (UIAction_Type a)
                | None \<Rightarrow> None) of
            Some handler \<Rightarrow> handler req s
          | None \<Rightarrow>
             (case defaultHandler r of
                Some handler \<Rightarrow> handler req s
              | None \<Rightarrow>
                 (case UIActionRequest_Action req of
                    None \<Rightarrow> (Panic, s)
                  | Some a \<Rightarrow>
                     (Err (Error (''no handler for action type '' @ strconv_Quote (UIAction_Type a) @
                                  '' from resource '' @
                                  strconv_Quote (UIActionRequest_ResourceURI req))), s)))))"

definition Handle :: "'s Router \<Rightarrow> UIActionRequest \<Rightarrow> 's \<Rightarrow> UIActionResult outcome \<times> 's" where
  "Handle r req s = Dispatch r req s"

text \<open>
  The adapters. Each reads \<open>req.Action.Type\<close> first, so an absent action panics.
\<close>

definition WrapToolHandler :: "Unmarshal \<Rightarrow> 's ToolHandler \<Rightarrow> 's UIActionHandler" where
  "WrapToolHandler js handler req s =
     (case UIActionRequest_Action req of
        None \<Rightarrow> (Panic, s)
      | Some a \<Rightarrow>
         if UIAction_Type a \<noteq> ActionTypeTool
         then (Err (Error (''expected tool action, got '' @ UIAction_Type a)), s)
         else (case ToolPayload js a of
                 Inl err \<Rightarrow> (Err err, s)
               | Inr payload \<Rightarrow>
                  (case handler (ToolActionPayload_ToolName payload)
                                (ToolActionPayload_Params payload) s of
                     ((result, Some err), s') \<Rightarrow>
                       (Ok \<lparr>UIActionResult_Response = ANil, UIActionResult_Error = Some err\<rparr>, s')
                   | ((result, None), s') \<Rightarrow>
                       (Ok \<lparr>UIActionResult_Response = result, UIActionResult_Error = None\<rparr>, s'))))"

definition WrapIntentHandler :: "Unmarshal \<Rightarrow> 's IntentHandler \<Rightarrow> 's UIActionHandler" where
  "WrapIntentHandler js handler req s =
     (case UIActionRequest_Action req of
        None \<Rightarrow> (Panic, s)
      | Some a \<Rightarrow>
         if UIAction_Type a \<noteq> ActionTypeIntent
         then (Err (Error (''expected intent action, got '' @ UIAction_Type a)), s)
         else (case IntentPayload js a of
                 Inl err \<Rightarrow> (Err err, s)
               | Inr payload \<Rightarrow>
                  (case handler (IntentActionPayload_Intent payload)
                                (IntentActionPayload_Params payload) s of
                     ((result, Some err), s') \<Rightarrow>
                       (Ok \<lparr>UIActionResult_Response = ANil, UIActionResult_Error = Some err\<rparr>, s')
                   | ((result, None), s') \<Rightarrow>
                       (Ok \<lparr>UIActionResult_Response = result, UIActionResult_Error = None\<rparr>, s'))))"

definition WrapPromptHandler :: "Unmarshal \<Rightarrow> 's PromptHandler \<Rightarrow> 's UIActionHandler" where
  "WrapPromptHandler js handler req s =
     (case UIActionRequest_Action req of
        None \<Rightarrow> (Panic, s)
      | Some a \<Rightarrow>
         if UIAction_Type a \<noteq> ActionTypePrompt
         then (Err (Error (''expected prompt action, got '' @ UIAction_Type a)), s)
         else (case PromptPayload js a of
                 Inl err \<Rightarrow> (Err err, s)
               | Inr payload \<Rightarrow>
                  (case handler (PromptActionPayload_Prompt payload) s of
                     ((result, Some err), s') \<Rightarrow>
                       (Ok \<lparr>UIActionResult_Response = ANil, UIActionResult_Error = Some err\<rparr>, s')
                   | ((result, None), s') \<Rightarrow>
                       (Ok \<lparr>UIActionResult_Response = result, UIActionResult_Error = None\<rparr>, s'))))"

definition WrapNotifyHandler :: "Unmarshal \<Rightarrow> 's NotifyHandler \<Rightarrow> 's UIActionHandler" where
  "WrapNotifyHandler js handler req s =
     (case UIActionRequest_Action req of
        None \<Rightarrow> (Panic, s)
      | Some a \<Rightarrow>
         if UIAction_Type a \<noteq> ActionTypeNotify
         then (Err (Error (''expected notify action, got '' @ UIAction_Type a)), s)
         else (case NotifyPayload js a of
                 Inl err \<Rightarrow> (Err err, s)
               | Inr payload \<Rightarrow>
                  (case handler (NotifyActionPayload_Message payload)
                                (NotifyActionPayload_Level payload) s of
                     (Some err, s') \<Rightarrow>
                       (Ok \<lparr>UIActionResult_Response = ANil, UIActionResult_Error = Some err\<rparr>, s')
                   | (None, s') \<Rightarrow>
                       (Ok \<lparr>UIActionResult_Response = AString ''acknowledged'',
                            UIActionResult_Error = None\<rparr>, s'))))"

definition WrapLinkHandler :: "Unmarshal \<Rightarrow> 's LinkHandler \<Rightarrow> 's UIActionHandler" where
  "WrapLinkHandler js handler req s =
     (case UIActionRequest_Action req of
        None \<Rightarrow> (Panic, s)
      | Some a \<Rightarrow>
         if UIAction_Type a \<noteq> ActionTypeLink
         then (Err (Error (''expected link action, got '' @ UIAction_Type a)), s)
         else (case LinkPayload js a of
                 Inl err \<Rightarrow> (Err err, s)
               | Inr payload \<Rightarrow>
                  (case handler (LinkActionPayload_URL payload) s of
                     (Some err, s') \<Rightarrow>
                       (Ok \<lparr>UIActionResult_Response = ANil, UIActionResult_Error = Some err\<rparr>, s')
                   | (None, s') \<Rightarrow>
                       (Ok \<lparr>UIActionResult_Response = AString ''opened'',
                            UIActionResult_Error = None\<rparr>, s'))))"

definition WrapUISizeHandler :: "Unmarshal \<Rightarrow> 's UISizeHandler \<Rightarrow> 's UIActionHandler" where
  "WrapUISizeHandler js handler req s =
     (case UIActionRequest_Action req of
        None \<Rightarrow> (Panic, s)
      | Some a \<Rightarrow>
         if UIAction_Type a \<noteq> ActionTypeUISize
         then (Err (Error (''expected ui-size-change action, got '' @ UIAction_Type a)), s)
         else (case UISizePayload js a of
                 Inl err \<Rightarrow> (Err err, s)
               | Inr payload \<Rightarrow>
                  (case handler (UISizeActionPayload_Height payload)
                                (UISizeActionPayload_Width payload) s of
                     (Some err, s') \<Rightarrow>
                       (Ok \<lparr>UIActionResult_Response = ANil, UIActionResult_Error = Some err\<rparr>, s')
                   | (None, s') \<Rightarrow>
                       (Ok \<lparr>UIActionResult_Response = AString ''acknowledged'',
                            UIActionResult_Error = None\<rparr>, s'))))"

section \<open>encoding/base64: the standard encoding\<close>

text \<open>
  \<open>base64.StdEncoding\<close> belongs to Go's standard library; it is modelled as RFC 4648
  base64 with padding. \<open>EncodeToString\<close> packs three bytes into a 24-bit value
  (\<open>val\<close>, a \<open>uint\<close>) and writes its four six-bit groups through the alphabet; one or
  two bytes left over are written as two or three characters and padded with \<open>=\<close>.
\<close>

type_synonym byte = "8 word"

definition encodeStd :: string where
  "encodeStd = ''ABCDEFGHIJKLMNOPQRSTUVWXYZabcdefghijklmnopqrstuvwxyz0123456789+/''"

definition quantum :: "byte \<Rightarrow> byte \<Rightarrow> byte \<Rightarrow> 64 word" where
  "quantum a b c = push_bit 16 (ucast a) OR push_bit 8 (ucast b) OR ucast c"

definition sextet :: "64 word \<Rightarrow> nat \<Rightarrow> char" where
  "sextet val k = encodeStd ! unat (drop_bit k val AND 0x3F)"

fun EncodeToString :: "byte list \<Rightarrow> string" where
  "EncodeToString (a # b # c # rest) =
     (let val = quantum a b c
      in [sextet val 18, sextet val 12, sextet val 6, sextet val 0] @ EncodeToString rest)"
| "EncodeToString [a, b] =
     (let val = quantum a b 0
      in [sextet val 18, sextet val 12, sextet val 6, CHR ''=''])"
| "EncodeToString [a] =
     (let val = quantum a 0 0
      in [sextet val 18, sextet val 12, CHR ''='', CHR ''=''])"
| "EncodeToString [] = []"

text \<open>
  \<open>DecodeString\<close> skips line breaks, reads the characters four at a time through the
  inverse of the alphabet and puts the 24-bit value together again; padding may only
  end the input. It does not check that the bits a padded group leaves unused are zero.
  Of its error, \<open>illegal base64 data at input byte N\<close>, the position is not modelled.
\<close>

fun index_of :: "'a \<Rightarrow> 'a list \<Rightarrow> nat option" where
  "index_of x [] = None"
| "index_of x (y # ys) = (if x = y then Some 0 else map_option Suc (index_of x ys))"

definition decodeMap :: "char \<Rightarrow> byte option" where
  "decodeMap c = map_option of_nat (index_of c encodeStd)"

definition assemble :: "byte \<Rightarrow> byte \<Rightarrow> byte \<Rightarrow> byte \<Rightarrow> 64 word" where
  "assemble d0 d1 d2 d3 =
     push_bit 18 (ucast d0) OR push_bit 12 (ucast d1) OR push_bit 6 (ucast d2) OR ucast d3"

fun decode_quanta :: "string \<Rightarrow> byte list option" where
  "decode_quanta [] = Some []"
| "decode_quanta (c0 # c1 # c2 # c3 # rest) =
     (case (decodeMap c0, decodeMap c1) of
        (Some d0, Some d1) \<Rightarrow>
          if c2 = CHR ''='' then
            (if c3 = CHR ''='' \<and> rest = []
             then Some [ucast (drop_bit 16 (assemble d0 d1 0 0))]
             else None)
          else
            (case decodeMap c2 of
               None \<Rightarrow> None
             | Some d2 \<Rightarrow>
                if c3 = CHR ''='' then
                  (if rest = []
                   then Some [ucast (drop_bit 16 (assemble d0 d1 d2 0)),
                              ucast (drop_bit 8 (assemble d0 d1 d2 0))]
                   else None)
                else
                  (case decodeMap c3 of
                     None \<Rightarrow> None
                   | Some d3 \<Rightarrow>
                      map_option
                        (\<lambda>bs. [ucast (drop_bit 16 (assemble d0 d1 d2 d3)),
                               ucast (drop_bit 8 (assemble d0 d1 d2 d3)),
                               ucast (assemble d0 d1 d2 d3)] @ bs)
                        (decode_quanta rest)))
      | _ \<Rightarrow> None)"
| "decode_quanta _ = None"

definition DecodeString :: "string \<Rightarrow> error + byte list" where
  "DecodeString s =
     (case decode_quanta (filter (\<lambda>c. c \<noteq> CHR 0x0A \<and> c \<noteq> CHR 0x0D) s) of
        None \<Rightarrow> Inl (Error ''illegal base64 data'')
      | Some bs \<Rightarrow> Inr bs)"

section \<open>encoding/json, as far as content.go and resource.go use it\<close>

text \<open>
  A \<open>float64\<close> is its IEEE 754 bit pattern. It is finite unless its eleven exponent
  bits are all ones; \<open>strconv.FormatFloat\<close> names the other values \<open>NaN\<close>, \<open>+Inf\<close> and
  \<open>-Inf\<close>.
\<close>

type_synonym float64 = "64 word"

definition float64_finite :: "float64 \<Rightarrow> bool" where
  "float64_finite f = (drop_bit 52 f AND 0x7FF \<noteq> 0x7FF)"

definition FormatFloat_special :: "float64 \<Rightarrow> string" where
  "FormatFloat_special f =
     (if f AND 0xFFFFFFFFFFFFF \<noteq> 0 then ''NaN''
      else if bit f 63 then ''-Inf'' else ''+Inf'')"

text \<open>
  A JSON document, as a value: \<open>json.Marshal\<close> produces the text of one and
  \<open>json.Unmarshal\<close> parses that text back, so the text itself (escapes, digits, white
  space) is not modelled. Strings are valid UTF-8; a number is the \<open>float64\<close> its digits
  denote. An object keeps its members in order.
\<close>

datatype json =
    JNull
  | JBool bool
  | JNumber float64
  | JString string
  | JArray "json list"
  | JObject "(string \<times> json) list"

text \<open>The member of an object under a key; the last one when the key is repeated.\<close>

fun object_field :: "json \<Rightarrow> string \<Rightarrow> json option" where
  "object_field (JObject members) key = map_of (rev members) key"
| "object_field _ key = None"

fun json_kind :: "json \<Rightarrow> string" where
  "json_kind JNull = ''null''"
| "json_kind (JBool b) = ''bool''"
| "json_kind (JNumber n) = ''number''"
| "json_kind (JString s) = ''string''"
| "json_kind (JArray xs) = ''array''"
| "json_kind (JObject ms) = ''object''"

definition cannot_unmarshal :: "json \<Rightarrow> string \<Rightarrow> error" where
  "cannot_unmarshal j target =
     Error (''json: cannot unmarshal '' @ json_kind j @ '' into Go value of type '' @ target)"

section \<open>content.go\<close>

definition MIMETypeHTML :: string where "MIMETypeHTML = ''text/html''"
definition MIMETypeURLList :: string where "MIMETypeURLList = ''text/uri-list''"
definition MIMETypeRemoteDOM :: string where
  "MIMETypeRemoteDOM = ''application/vnd.mcp-ui.remote-dom''"

definition FrameworkWebComponents :: string where "FrameworkWebComponents = ''webcomponents''"

definition URIScheme :: string where "URIScheme = ''ui://''"

text \<open>
  \<open>Audience\<close> is a slice the package only passes on; a nil and an empty slice are both
  the empty list. \<open>Priority\<close> is a pointer.
\<close>

record Annotations =
  Annotations_Audience :: "string list"
  Annotations_Priority :: "float64 option"

record HTMLContent =
  HTMLContent_HTML :: string
  HTMLContent_Annotations :: "Annotations option"

record URLContent =
  URLContent_URL :: string
  URLContent_Annotations :: "Annotations option"

record RemoteDOMContent =
  RemoteDOMContent_Script :: string
  RemoteDOMContent_Framework :: string
  RemoteDOMContent_Annotations :: "Annotations option"

record BlobContent =
  BlobContent_Data :: "byte list"
  BlobContent_ContentMIMEType :: string
  BlobContent_Annotations :: "Annotations option"

text \<open>The interface \<open>UIContent\<close> and the four pointer types that implement it.\<close>

datatype UIContent =
    HTML HTMLContent
  | URL URLContent
  | RemoteDOM RemoteDOMContent
  | Blob BlobContent

record wireUIContent =
  wireUIContent_MIMEType :: string
  wireUIContent_Text :: string
  wireUIContent_Blob :: string
  wireUIContent_Annotations :: "Annotations option"

text \<open>
  \<open>json.Marshal\<close> of the two structs, by their field tags: a field tagged \<open>omitempty\<close>
  is left out when it is the empty string, an empty slice or a nil pointer. A
  \<open>float64\<close> that is not finite makes \<open>json.Marshal\<close> fail.
\<close>

definition marshal_Annotations :: "Annotations \<Rightarrow> error + json" where
  "marshal_Annotations a =
     (let audience =
            (if Annotations_Audience a = [] then []
             else [(''audience'', JArray (map JString (Annotations_Audience a)))])
      in case Annotations_Priority a of
           None \<Rightarrow> Inr (JObject audience)
         | Some p \<Rightarrow>
            if float64_finite p then Inr (JObject (audience @ [(''priority'', JNumber p)]))
            else Inl (Error (''json: unsupported value: '' @ FormatFloat_special p)))"

definition marshal_wireUIContent :: "wireUIContent \<Rightarrow> error + json" where
  "marshal_wireUIContent w =
     (let members =
            [(''mimeType'', JString (wireUIContent_MIMEType w))] @
            (if wireUIContent_Text w = [] then []
             else [(''text'', JString (wireUIContent_Text w))]) @
            (if wireUIContent_Blob w = [] then []
             else [(''blob'', JString (wireUIContent_Blob w))])
      in case wireUIContent_Annotations w of
           None \<Rightarrow> Inr (JObject members)
         | Some a \<Rightarrow>
            (case marshal_Annotations a of
               Inl err \<Rightarrow> Inl err
             | Inr j \<Rightarrow> Inr (JObject (members @ [(''annotations'', j)]))))"

text \<open>
  \<open>json.Unmarshal\<close> into a zero-valued struct: a member that is absent or \<open>null\<close> leaves
  its field zero, a member of another JSON type than the field's is an error. Keys are
  matched as written (Go also accepts a key that differs in letter case only).
\<close>

definition unmarshal_string :: "json option \<Rightarrow> error + string" where
  "unmarshal_string m =
     (case m of
        None \<Rightarrow> Inr []
      | Some JNull \<Rightarrow> Inr []
      | Some (JString s) \<Rightarrow> Inr s
      | Some j \<Rightarrow> Inl (cannot_unmarshal j ''string''))"

fun unmarshal_strings :: "json list \<Rightarrow> error + string list" where
  "unmarshal_strings [] = Inr []"
| "unmarshal_strings (j # js) =
     (case unmarshal_string (Some j) of
        Inl err \<Rightarrow> Inl err
      | Inr s \<Rightarrow>
         (case unmarshal_strings js of
            Inl err \<Rightarrow> Inl err
          | Inr ss \<Rightarrow> Inr (s # ss)))"

definition unmarshal_Audience :: "json option \<Rightarrow> error + string list" where
  "unmarshal_Audience m =
     (case m of
        None \<Rightarrow> Inr []
      | Some JNull \<Rightarrow> Inr []
      | Some (JArray js) \<Rightarrow> unmarshal_strings js
      | Some j \<Rightarrow> Inl (cannot_unmarshal j ''[]string''))"

definition unmarshal_Priority :: "json option \<Rightarrow> error + float64 option" where
  "unmarshal_Priority m =
     (case m of
        None \<Rightarrow> Inr None
      | Some JNull \<Rightarrow> Inr None
      | Some (JNumber p) \<Rightarrow> Inr (Some p)
      | Some j \<Rightarrow> Inl (cannot_unmarshal j ''float64''))"

definition unmarshal_Annotations :: "json option \<Rightarrow> error + Annotations option" where
  "unmarshal_Annotations m =
     (case m of
        None \<Rightarrow> Inr None
      | Some JNull \<Rightarrow> Inr None
      | Some (JObject members) \<Rightarrow>
         (case unmarshal_Audience (object_field (JObject members) ''audience'') of
            Inl err \<Rightarrow> Inl err
          | Inr audience \<Rightarrow>
             (case unmarshal_Priority (object_field (JObject members) ''priority'') of
                Inl err \<Rightarrow> Inl err
              | Inr priority \<Rightarrow>
                 Inr (Some \<lparr>Annotations_Audience = audience,
                            Annotations_Priority = priority\<rparr>)))
      | Some j \<Rightarrow> Inl (cannot_unmarshal j ''mcpui.Annotations''))"

definition unmarshal_wireUIContent :: "json \<Rightarrow> error + wireUIContent" where
  "unmarshal_wireUIContent j =
     (case j of
        JNull \<Rightarrow>
          Inr \<lparr>wireUIContent_MIMEType = [], wireUIContent_Text = [],
               wireUIContent_Blob = [], wireUIContent_Annotations = None\<rparr>
      | JObject members \<Rightarrow>
         (case unmarshal_string (object_field j ''mimeType'') of
            Inl err \<Rightarrow> Inl err
          | Inr mimeType \<Rightarrow>
         (case unmarshal_string (object_field j ''text'') of
            Inl err \<Rightarrow> Inl err
          | Inr text \<Rightarrow>
         (case unmarshal_string (object_field j ''blob'') of
            Inl err \<Rightarrow> Inl err
          | Inr blob \<Rightarrow>
         (case unmarshal_Annotations (object_field j ''annotations'') of
            Inl err \<Rightarrow> Inl err
          | Inr annotations \<Rightarrow>
             Inr \<lparr>wireUIContent_MIMEType = mimeType, wireUIContent_Text = text,
                  wireUIContent_Blob = blob, wireUIContent_Annotations = annotations\<rparr>))))
      | _ \<Rightarrow> Inl (cannot_unmarshal j ''mcpui.wireUIContent''))"

text \<open>
  The four \<open>MarshalJSON\<close> methods, and \<open>MarshalJSON\<close> called through the interface.
  Receivers are non-nil pointers.
\<close>

definition HTMLContent_MarshalJSON :: "HTMLContent \<Rightarrow> error + json" where
  "HTMLContent_MarshalJSON c =
     marshal_wireUIContent
       \<lparr>wireUIContent_MIMEType = MIMETypeHTML,
        wireUIContent_Text = HTMLContent_HTML c,
        wireUIContent_Blob = [],
        wireUIContent_Annotations = HTMLContent_Annotations c\<rparr>"

definition URLContent_MarshalJSON :: "URLContent \<Rightarrow> error + json" where
  "URLContent_MarshalJSON c =
     marshal_wireUIContent
       \<lparr>wireUIContent_MIMEType = MIMETypeURLList,
        wireUIContent_Text = URLContent_URL c,
        wireUIContent_Blob = [],
        wireUIContent_Annotations = URLContent_Annotations c\<rparr>"

definition RemoteDOMContent_mimeType :: "RemoteDOMContent \<Rightarrow> string" where
  "RemoteDOMContent_mimeType c =
     (let mimeType = MIMETypeRemoteDOM @ ''+javascript''
      in if RemoteDOMContent_Framework c \<noteq> []
         then mimeType @ ''; framework='' @ RemoteDOMContent_Framework c
         else mimeType)"

definition RemoteDOMContent_MarshalJSON :: "RemoteDOMContent \<Rightarrow> error + json" where
  "RemoteDOMContent_MarshalJSON c =
     (let mimeType = MIMETypeRemoteDOM @ ''+javascript'';
          mimeType = (if RemoteDOMContent_Framework c \<noteq> []
                      then mimeType @ ''; framework='' @ RemoteDOMContent_Framework c
                      else mimeType)
      in marshal_wireUIContent
           \<lparr>wireUIContent_MIMEType = mimeType,
            wireUIContent_Text = RemoteDOMContent_Script c,
            wireUIContent_Blob = [],
            wireUIContent_Annotations = RemoteDOMContent_Annotations c\<rparr>)"

definition BlobContent_MarshalJSON :: "BlobContent \<Rightarrow> error + json" where
  "BlobContent_MarshalJSON c =
     (let encoded = EncodeToString (BlobContent_Data c)
      in marshal_wireUIContent
           \<lparr>wireUIContent_MIMEType = BlobContent_ContentMIMEType c,
            wireUIContent_Text = [],
            wireUIContent_Blob = encoded,
            wireUIContent_Annotations = BlobContent_Annotations c\<rparr>)"

fun MarshalJSON :: "UIContent \<Rightarrow> error + json" where
  "MarshalJSON (HTML c) = HTMLContent_MarshalJSON c"
| "MarshalJSON (URL c) = URLContent_MarshalJSON c"
| "MarshalJSON (RemoteDOM c) = RemoteDOMContent_MarshalJSON c"
| "MarshalJSON (Blob c) = BlobContent_MarshalJSON c"

text \<open>
  \<open>strings.Index\<close> and \<open>strings.IndexAny\<close>: the first position of a substring, and of
  any of a set of characters; \<open>None\<close> is Go's \<open>-1\<close>.
\<close>

fun strings_Index :: "string \<Rightarrow> string \<Rightarrow> nat option" where
  "strings_Index [] substr = (if substr = [] then Some 0 else None)"
| "strings_Index (c # s) substr =
     (if take (length substr) (c # s) = substr then Some 0
      else map_option Suc (strings_Index s substr))"

fun strings_IndexAny :: "string \<Rightarrow> string \<Rightarrow> nat option" where
  "strings_IndexAny [] chars = None"
| "strings_IndexAny (c # s) chars =
     (if c \<in> set chars then Some 0 else map_option Suc (strings_IndexAny s chars))"

text \<open>
  The four \<open>fromWire\<close> methods assign to the fields of their receiver, which the model
  takes and returns. The script variant assigns \<open>Framework\<close> only when the MIME type
  holds \<open>framework=\<close>, and the binary variant assigns \<open>Data\<close> only when the wire blob is
  not empty.
\<close>

definition HTMLContent_fromWire :: "HTMLContent \<Rightarrow> wireUIContent \<Rightarrow> error + HTMLContent" where
  "HTMLContent_fromWire c wire =
     Inr (c\<lparr>HTMLContent_HTML := wireUIContent_Text wire,
            HTMLContent_Annotations := wireUIContent_Annotations wire\<rparr>)"

definition URLContent_fromWire :: "URLContent \<Rightarrow> wireUIContent \<Rightarrow> error + URLContent" where
  "URLContent_fromWire c wire =
     Inr (c\<lparr>URLContent_URL := wireUIContent_Text wire,
            URLContent_Annotations := wireUIContent_Annotations wire\<rparr>)"

definition RemoteDOMContent_fromWire ::
  "RemoteDOMContent \<Rightarrow> wireUIContent \<Rightarrow> error + RemoteDOMContent" where
  "RemoteDOMContent_fromWire c wire =
     (let c = c\<lparr>RemoteDOMContent_Script := wireUIContent_Text wire,
                RemoteDOMContent_Annotations := wireUIContent_Annotations wire\<rparr>
      in case strings_Index (wireUIContent_MIMEType wire) ''framework='' of
           None \<Rightarrow> Inr c
         | Some idx \<Rightarrow>
            (let frameworkPart = drop (idx + length ''framework='') (wireUIContent_MIMEType wire);
                 frameworkPart =
                   (case strings_IndexAny frameworkPart ''; '' of
                      None \<Rightarrow> frameworkPart
                    | Some endIdx \<Rightarrow> take endIdx frameworkPart)
             in Inr (c\<lparr>RemoteDOMContent_Framework := frameworkPart\<rparr>)))"

definition BlobContent_fromWire :: "BlobContent \<Rightarrow> wireUIContent \<Rightarrow> error + BlobContent" where
  "BlobContent_fromWire c wire =
     (case (if wireUIContent_Blob wire \<noteq> []
            then (case DecodeString (wireUIContent_Blob wire) of
                    Inl err \<Rightarrow>
                      Inl (Error (''failed to decode base64 blob: '' @ error_message err))
                  | Inr data \<Rightarrow> Inr (c\<lparr>BlobContent_Data := data\<rparr>))
            else Inr c) of
        Inl err \<Rightarrow> Inl err
      | Inr c \<Rightarrow>
         Inr (c\<lparr>BlobContent_ContentMIMEType := wireUIContent_MIMEType wire,
                BlobContent_Annotations := wireUIContent_Annotations wire\<rparr>))"

text \<open>\<open>ContentFromWire\<close>; its argument is a pointer, \<open>None\<close> when nil.\<close>

definition ContentFromWire :: "wireUIContent option \<Rightarrow> error + UIContent" where
  "ContentFromWire w =
     (case w of
        None \<Rightarrow> Inl (Error ''nil wire content'')
      | Some wire \<Rightarrow>
         if wireUIContent_MIMEType wire = MIMETypeHTML then
           (case HTMLContent_fromWire
                   \<lparr>HTMLContent_HTML = [], HTMLContent_Annotations = None\<rparr> wire of
              Inl err \<Rightarrow> Inl err
            | Inr c \<Rightarrow> Inr (HTML c))
         else if wireUIContent_MIMEType wire = MIMETypeURLList then
           (case URLContent_fromWire
                   \<lparr>URLContent_URL = [], URLContent_Annotations = None\<rparr> wire of
              Inl err \<Rightarrow> Inl err
            | Inr c \<Rightarrow> Inr (URL c))
         else if length (wireUIContent_MIMEType wire) \<ge> length MIMETypeRemoteDOM \<and>
                 take (length MIMETypeRemoteDOM) (wireUIContent_MIMEType wire) = MIMETypeRemoteDOM then
           (case RemoteDOMContent_fromWire
                   \<lparr>RemoteDOMContent_Script = [], RemoteDOMContent_Framework = [],
                    RemoteDOMContent_Annotations = None\<rparr> wire of
              Inl err \<Rightarrow> Inl err
            | Inr c \<Rightarrow> Inr (RemoteDOM c))
         else if wireUIContent_Blob wire \<noteq> [] then
           (case BlobContent_fromWire
                   \<lparr>BlobContent_Data = [], BlobContent_ContentMIMEType = [],
                    BlobContent_Annotations = None\<rparr> wire of
              Inl err \<Rightarrow> Inl err
            | Inr c \<Rightarrow> Inr (Blob c))
         else Inl (Error (''unknown content MIME type: '' @ wireUIContent_MIMEType wire)))"

section \<open>resource.go\<close>

text \<open>\<open>Blob\<close> is a byte slice that the code compares with nil: \<open>None\<close> is the nil slice.\<close>

record UIResourceContents =
  UIResourceContents_URI :: string
  UIResourceContents_MIMEType :: string
  UIResourceContents_Text :: string
  UIResourceContents_Blob :: "byte list option"
  UIResourceContents_Annotations :: "Annotations option"

text \<open>
  \<open>json.Marshal\<close> of the two struct types \<open>UIResourceContents.MarshalJSON\<close> uses. A byte
  slice is written as the base64 text of its bytes.
\<close>

definition marshal_annotations_member :: "Annotations option \<Rightarrow> error + (string \<times> json) list" where
  "marshal_annotations_member a =
     (case a of
        None \<Rightarrow> Inr []
      | Some a \<Rightarrow>
         (case marshal_Annotations a of
            Inl err \<Rightarrow> Inl err
          | Inr j \<Rightarrow> Inr [(''annotations'', j)]))"

definition marshal_wireResourceContents :: "UIResourceContents \<Rightarrow> error + json" where
  "marshal_wireResourceContents r =
     (case marshal_annotations_member (UIResourceContents_Annotations r) of
        Inl err \<Rightarrow> Inl err
      | Inr annotations \<Rightarrow>
         Inr (JObject
           ([(''uri'', JString (UIResourceContents_URI r))] @
            (if UIResourceContents_MIMEType r = [] then []
             else [(''mimeType'', JString (UIResourceContents_MIMEType r))]) @
            (if UIResourceContents_Text r = [] then []
             else [(''text'', JString (UIResourceContents_Text r))]) @
            (case UIResourceContents_Blob r of
               None \<Rightarrow> []
             | Some b \<Rightarrow> if b = [] then [] else [(''blob'', JString (EncodeToString b))]) @
            annotations)))"

definition marshal_br ::
  "string \<Rightarrow> string \<Rightarrow> byte list \<Rightarrow> Annotations option \<Rightarrow> error + json" where
  "marshal_br uri mimeType blob annotations =
     (case marshal_annotations_member annotations of
        Inl err \<Rightarrow> Inl err
      | Inr annotations \<Rightarrow>
         Inr (JObject
           ((if uri = [] then [] else [(''uri'', JString uri)]) @
            (if mimeType = [] then [] else [(''mimeType'', JString mimeType)]) @
            [(''blob'', JString (EncodeToString blob))] @
            annotations)))"

definition UIResourceContents_MarshalJSON :: "UIResourceContents \<Rightarrow> error + json" where
  "UIResourceContents_MarshalJSON r =
     (if UIResourceContents_URI r = [] then Inl (Error ''UIResourceContents missing URI'')
      else case UIResourceContents_Blob r of
             None \<Rightarrow> marshal_wireResourceContents r
           | Some blob \<Rightarrow>
              if UIResourceContents_Text r \<noteq> []
              then Inl (Error ''UIResourceContents has non-zero Text and Blob fields'')
              else marshal_br (UIResourceContents_URI r) (UIResourceContents_MIMEType r) blob
                     (UIResourceContents_Annotations r))"

definition NewUIResourceContents :: "string \<Rightarrow> UIContent option \<Rightarrow> error + UIResourceContents" where
  "NewUIResourceContents uri content =
     (if uri = [] then Inl (Error ''URI is required'')
      else case content of
             None \<Rightarrow> Inl (Error ''content is required'')
           | Some c \<Rightarrow>
              (case MarshalJSON c of
                 Inl err \<Rightarrow> Inl err
               | Inr data \<Rightarrow>
                  (case unmarshal_wireUIContent data of
                     Inl err \<Rightarrow> Inl err
                   | Inr wire \<Rightarrow>
                      (let rc = \<lparr>UIResourceContents_URI = uri,
                                 UIResourceContents_MIMEType = wireUIContent_MIMEType wire,
                                 UIResourceContents_Text = [],
                                 UIResourceContents_Blob = None,
                                 UIResourceContents_Annotations = wireUIContent_Annotations wire\<rparr>
                       in if wireUIContent_Blob wire \<noteq> [] then
                            (case DecodeString (wireUIContent_Blob wire) of
                               Inl err \<Rightarrow>
                                 Inl (Error (''failed to decode base64 blob: '' @ error_message err))
                             | Inr decoded \<Rightarrow> Inr (rc\<lparr>UIResourceContents_Blob := Some decoded\<rparr>))
                          else Inr (rc\<lparr>UIResourceContents_Text := wireUIContent_Text wire\<rparr>)))))"

definition ToUIContent :: "UIResourceContents \<Rightarrow> error + UIContent" where
  "ToUIContent r =
     (let wire = \<lparr>wireUIContent_MIMEType = UIResourceContents_MIMEType r,
                  wireUIContent_Text = UIResourceContents_Text r,
                  wireUIContent_Blob = [],
                  wireUIContent_Annotations = UIResourceContents_Annotations r\<rparr>;
          wire = (case UIResourceContents_Blob r of
                    None \<Rightarrow> wire
                  | Some b \<Rightarrow> wire\<lparr>wireUIContent_Blob := EncodeToString b\<rparr>)
      in ContentFromWire (Some wire))"

text \<open>
  Decoding what encoding wrote: \<open>MarshalJSON\<close>, then \<open>json.Unmarshal\<close> into the wire
  struct (as \<open>NewUIResourceContents\<close> does), then \<open>ContentFromWire\<close>.
\<close>

definition Decode_Encode :: "UIContent \<Rightarrow> error + UIContent" where
  "Decode_Encode v =
     (case MarshalJSON v of
        Inl err \<Rightarrow> Inl err
      | Inr data \<Rightarrow>
         (case unmarshal_wireUIContent data of
            Inl err \<Rightarrow> Inl err
          | Inr wire \<Rightarrow> ContentFromWire (Some wire)))"

section \<open>Predicates on content variants used by the properties\<close>




fun body_empty :: "UIContent \<Rightarrow> bool" where
  "body_empty (HTML c) = (HTMLContent_HTML c = [])"
| "body_empty (URL c) = (URLContent_URL c = [])"
| "body_empty (RemoteDOM c) = (RemoteDOMContent_Script c = [])"
| "body_empty (Blob c) = (BlobContent_Data c = [])"

section \<open>Fixtures of the package's tests\<close>

text \<open>
  \<open>TestRouter_Priority\<close> registers three handlers that ignore the request and answer
  with a fixed string.
\<close>

definition respond :: "string \<Rightarrow> 's UIActionHandler" where
  "respond v req s =
     (Ok \<lparr>UIActionResult_Response = AString v, UIActionResult_Error = None\<rparr>, s)"

definition priority_router :: "'s Router" where
  "priority_router =
     HandleResource
       (HandleType (SetDefault NewRouter (respond ''default'')) ActionTypeTool (respond ''type''))
       ''ui://test'' (respond ''resource'')"

text \<open>
  The decoders at the raw payloads the package's tests send (what \<open>json.Unmarshal\<close>
  returns for them); any other input is answered as a truncated document is.
\<close>

definition test_Unmarshal :: Unmarshal where
  \<open>test_Unmarshal =
     \<lparr>Unmarshal_Tool = (\<lambda>raw.
        if raw = ''{"toolName":"my_tool","params":{}}''
        then Inr \<lparr>ToolActionPayload_ToolName = ''my_tool'', ToolActionPayload_Params = []\<rparr>
        else Inl (Error ''unexpected end of JSON input'')),
      Unmarshal_Intent = (\<lambda>raw.
        if raw = ''{"intent":"switch_scene"}''
        then Inr \<lparr>IntentActionPayload_Intent = ''switch_scene'', IntentActionPayload_Params = []\<rparr>
        else Inl (Error ''unexpected end of JSON input'')),
      Unmarshal_Prompt = (\<lambda>raw.
        if raw = ''{"prompt":"Hello"}''
        then Inr \<lparr>PromptActionPayload_Prompt = ''Hello''\<rparr>
        else Inl (Error ''unexpected end of JSON input'')),
      Unmarshal_Notify = (\<lambda>raw.
        if raw = ''{"message":"Test notification","level":"info"}''
        then Inr \<lparr>NotifyActionPayload_Message = ''Test notification'',
                  NotifyActionPayload_Level = ''info''\<rparr>
        else Inl (Error ''unexpected end of JSON input'')),
      Unmarshal_Link = (\<lambda>raw.
        if raw = ''{"url":"https://example.com"}''
        then Inr \<lparr>LinkActionPayload_URL = ''https://example.com''\<rparr>
        else Inl (Error ''unexpected end of JSON input'')),
      Unmarshal_UISize = (\<lambda>raw.
        if raw = ''{"height":600,"width":800}''
        then Inr \<lparr>UISizeActionPayload_Height = 600, UISizeActionPayload_Width = 800\<rparr>
        else Inl (Error ''unexpected end of JSON input''))\<rparr>\<close>

text \<open>
  Narrow handlers that count their calls in the state, as the tests' closures record
  theirs in captured variables.
\<close>

definition echo_tool :: "nat ToolHandler" where
  "echo_tool name params s = ((AString name, None), Suc s)"

definition failing_tool :: "nat ToolHandler" where
  "failing_tool name params s = ((ANil, Some (Error ''tool failed'')), Suc s)"

definition quiet_notify :: "nat NotifyHandler" where
  "quiet_notify message level s = (None, Suc s)"

definition quiet_link :: "nat LinkHandler" where
  "quiet_link url s = (None, Suc s)"

definition quiet_size :: "nat UISizeHandler" where
  "quiet_size height width s = (None, Suc s)"

section \<open>Properties of the response builder\<close>

text \<open>
  C9. For every action result and every message id, \<open>ToUIResponse\<close> yields an envelope
  of type \<open>ui-message-response\<close> whose payload is present (the state with a nil payload,
  neither success nor error, does not arise), and the envelope is an error envelope
  exactly when the result's \<open>Error\<close> field is non-nil.
\<close>

theorem ToUIResponse_payload_present:
  "UIResponse_Type (ToUIResponse r messageID) = ResponseTypeResponse \<and>
   UIResponse_Payload (ToUIResponse r messageID) \<noteq> None \<and>
   IsError (ToUIResponse r messageID) = (UIActionResult_Error r \<noteq> None)"
  by (cases "UIActionResult_Error r")
     (simp_all add: ToUIResponse_def NewErrorResponse_def NewSuccessResponse_def IsError_def)

text \<open>
  C10. No response envelope satisfies both \<open>IsSuccess\<close> and \<open>IsError\<close>.
\<close>

theorem IsSuccess_IsError_exclusive:
  "\<not> (IsSuccess r \<and> IsError r)"
  by (cases "UIResponse_Payload r")
     (auto simp add: IsSuccess_def IsError_def ResponseTypeReceived_def ResponseTypeResponse_def)

section \<open>Properties of the router\<close>

lemmas ActionType_defs = ActionTypeTool_def ActionTypeIntent_def ActionTypePrompt_def
  ActionTypeNotify_def ActionTypeLink_def ActionTypeUISize_def

lemmas router_defs = priority_router_def HandleResource_def HandleType_def SetDefault_def
  NewRouter_def respond_def Dispatch_def ActionTypeTool_def ActionTypePrompt_def

text \<open>
  C2. With the three handlers of \<open>TestRouter_Priority\<close> registered, a tool action from
  \<open>ui://test\<close> is answered by the resource handler, a tool action from \<open>ui://other\<close>
  by the type handler and a prompt action from \<open>ui://other\<close> by the default handler.
  The resource tier compares the whole URI: from every URI other than \<open>ui://test\<close>
  itself, also one that extends it or is a prefix of it, a tool action reaches the type
  handler and a prompt action the default handler.
\<close>

theorem Dispatch_priority_exact:
  "Dispatch priority_router
     \<lparr>UIActionRequest_Action =
        Some \<lparr>UIAction_Type = ActionTypeTool, UIAction_MessageID = m, UIAction_Payload = p\<rparr>,
      UIActionRequest_ResourceURI = ''ui://test'', UIActionRequest_Session = x\<rparr> s
   = (Ok \<lparr>UIActionResult_Response = AString ''resource'', UIActionResult_Error = None\<rparr>, s) \<and>
   Dispatch priority_router
     \<lparr>UIActionRequest_Action =
        Some \<lparr>UIAction_Type = ActionTypeTool, UIAction_MessageID = m, UIAction_Payload = p\<rparr>,
      UIActionRequest_ResourceURI = ''ui://other'', UIActionRequest_Session = x\<rparr> s
   = (Ok \<lparr>UIActionResult_Response = AString ''type'', UIActionResult_Error = None\<rparr>, s) \<and>
   Dispatch priority_router
     \<lparr>UIActionRequest_Action =
        Some \<lparr>UIAction_Type = ActionTypePrompt, UIAction_MessageID = m, UIAction_Payload = p\<rparr>,
      UIActionRequest_ResourceURI = ''ui://other'', UIActionRequest_Session = x\<rparr> s
   = (Ok \<lparr>UIActionResult_Response = AString ''default'', UIActionResult_Error = None\<rparr>, s) \<and>
   (uri \<noteq> ''ui://test'' \<longrightarrow>
      Dispatch priority_router
        \<lparr>UIActionRequest_Action =
           Some \<lparr>UIAction_Type = ActionTypeTool, UIAction_MessageID = m, UIAction_Payload = p\<rparr>,
         UIActionRequest_ResourceURI = uri, UIActionRequest_Session = x\<rparr> s
      = (Ok \<lparr>UIActionResult_Response = AString ''type'', UIActionResult_Error = None\<rparr>, s) \<and>
      Dispatch priority_router
        \<lparr>UIActionRequest_Action =
           Some \<lparr>UIAction_Type = ActionTypePrompt, UIAction_MessageID = m, UIAction_Payload = p\<rparr>,
         UIActionRequest_ResourceURI = uri, UIActionRequest_Session = x\<rparr> s
      = (Ok \<lparr>UIActionResult_Response = AString ''default'', UIActionResult_Error = None\<rparr>, s))"
  by (simp add: router_defs)

theorem Dispatch_priority_exact_witness:
  "Dispatch priority_router
     \<lparr>UIActionRequest_Action =
        Some \<lparr>UIAction_Type = ActionTypeTool, UIAction_MessageID = ''msg-1'', UIAction_Payload = ''{}''\<rparr>,
      UIActionRequest_ResourceURI = ''ui://test/sub'', UIActionRequest_Session = ANil\<rparr> (0::nat)
   = (Ok \<lparr>UIActionResult_Response = AString ''type'', UIActionResult_Error = None\<rparr>, 0) \<and>
   Dispatch priority_router
     \<lparr>UIActionRequest_Action =
        Some \<lparr>UIAction_Type = ActionTypePrompt, UIAction_MessageID = ''msg-1'', UIAction_Payload = ''{}''\<rparr>,
      UIActionRequest_ResourceURI = ''ui://tes'', UIActionRequest_Session = ANil\<rparr> (0::nat)
   = (Ok \<lparr>UIActionResult_Response = AString ''default'', UIActionResult_Error = None\<rparr>, 0)"
  using Dispatch_priority_exact [of "''msg-1''" "''{}''" ANil "0::nat" "''ui://test/sub''"]
        Dispatch_priority_exact [of "''msg-1''" "''{}''" ANil "0::nat" "''ui://tes''"]
  by simp

text \<open>
  When no tier matches and the action is present, \<open>Dispatch\<close> returns the error that
  names the quoted tag and the quoted URI.
\<close>

lemma Dispatch_no_handler:
  assumes "UIActionRequest_ResourceURI req = [] \<or>
           resourceHandlers r (UIActionRequest_ResourceURI req) = None"
    and "UIActionRequest_Action req = Some a"
    and "typeHandlers r (UIAction_Type a) = None"
    and "defaultHandler r = None"
  shows "Dispatch r req s =
     (Err (Error (''no handler for action type '' @ strconv_Quote (UIAction_Type a) @
                  '' from resource '' @ strconv_Quote (UIActionRequest_ResourceURI req))), s)"
  using assms by (auto simp add: Dispatch_def)

text \<open>
  When no tier matches and the action is absent, the error message is never built: the
  read of \<open>req.Action.Type\<close> panics.
\<close>

lemma Dispatch_no_handler_nil_action:
  assumes "UIActionRequest_ResourceURI req = [] \<or>
           resourceHandlers r (UIActionRequest_ResourceURI req) = None"
    and "UIActionRequest_Action req = None"
    and "defaultHandler r = None"
  shows "Dispatch r req s = (Panic, s)"
  using assms by (auto simp add: Dispatch_def)

text \<open>
  C4. The claim says that a request no tier matches fails with the no-handler error also
  when its action is absent. On the empty router, the request with no action and no
  resource URI panics instead of returning that error.
\<close>

theorem Dispatch_nil_action_panics:
  "Dispatch NewRouter
     \<lparr>UIActionRequest_Action = None, UIActionRequest_ResourceURI = [],
      UIActionRequest_Session = ANil\<rparr> s = (Panic, s)"
  by (simp add: Dispatch_def NewRouter_def)

section \<open>Properties of the payload parser\<close>

text \<open>
  C6. \<open>ParsePayload\<close> is a closed switch over the six tags. For each known tag it
  returns what the decoder of that tag's record returns for the raw payload: the record,
  under that tag's variant, or an error whose message is \<open>invalid <tag> payload: \<close>
  followed by the decoder's message. For every other tag it returns the error
  \<open>unknown action type: <tag>\<close> and no payload.
\<close>

theorem ParsePayload_closed_switch:
  "(UIAction_Type a = ActionTypeTool \<longrightarrow>
      ParsePayload js a =
        (case Unmarshal_Tool js (UIAction_Payload a) of
           Inl err \<Rightarrow> Inl (Error (''invalid '' @ UIAction_Type a @ '' payload: '' @ error_message err))
         | Inr p \<Rightarrow> Inr (PTool p))) \<and>
   (UIAction_Type a = ActionTypeIntent \<longrightarrow>
      ParsePayload js a =
        (case Unmarshal_Intent js (UIAction_Payload a) of
           Inl err \<Rightarrow> Inl (Error (''invalid '' @ UIAction_Type a @ '' payload: '' @ error_message err))
         | Inr p \<Rightarrow> Inr (PIntent p))) \<and>
   (UIAction_Type a = ActionTypePrompt \<longrightarrow>
      ParsePayload js a =
        (case Unmarshal_Prompt js (UIAction_Payload a) of
           Inl err \<Rightarrow> Inl (Error (''invalid '' @ UIAction_Type a @ '' payload: '' @ error_message err))
         | Inr p \<Rightarrow> Inr (PPrompt p))) \<and>
   (UIAction_Type a = ActionTypeNotify \<longrightarrow>
      ParsePayload js a =
        (case Unmarshal_Notify js (UIAction_Payload a) of
           Inl err \<Rightarrow> Inl (Error (''invalid '' @ UIAction_Type a @ '' payload: '' @ error_message err))
         | Inr p \<Rightarrow> Inr (PNotify p))) \<and>
   (UIAction_Type a = ActionTypeLink \<longrightarrow>
      ParsePayload js a =
        (case Unmarshal_Link js (UIAction_Payload a) of
           Inl err \<Rightarrow> Inl (Error (''invalid '' @ UIAction_Type a @ '' payload: '' @ error_message err))
         | Inr p \<Rightarrow> Inr (PLink p))) \<and>
   (UIAction_Type a = ActionTypeUISize \<longrightarrow>
      ParsePayload js a =
        (case Unmarshal_UISize js (UIAction_Payload a) of
           Inl err \<Rightarrow> Inl (Error (''invalid '' @ UIAction_Type a @ '' payload: '' @ error_message err))
         | Inr p \<Rightarrow> Inr (PUISize p))) \<and>
   (UIAction_Type a \<notin> {ActionTypeTool, ActionTypeIntent, ActionTypePrompt,
                        ActionTypeNotify, ActionTypeLink, ActionTypeUISize} \<longrightarrow>
      ParsePayload js a = Inl (Error (''unknown action type: '' @ UIAction_Type a)))"
  by (simp add: ParsePayload_def ActionType_defs split: sum.split)

theorem ParsePayload_closed_switch_witness:
  \<open>ParsePayload test_Unmarshal
     \<lparr>UIAction_Type = ''bogus'', UIAction_MessageID = [], UIAction_Payload = ''{}''\<rparr>
   = Inl (Error ''unknown action type: bogus'') \<and>
   ParsePayload test_Unmarshal
     \<lparr>UIAction_Type = ''tool'', UIAction_MessageID = [],
      UIAction_Payload = ''{"toolName":"my_tool","params":{}}''\<rparr>
   = Inr (PTool \<lparr>ToolActionPayload_ToolName = ''my_tool'', ToolActionPayload_Params = []\<rparr>) \<and>
   ParsePayload test_Unmarshal
     \<lparr>UIAction_Type = ''ui-size-change'', UIAction_MessageID = [], UIAction_Payload = ''{''\<rparr>
   = Inl (Error ''invalid ui-size-change payload: unexpected end of JSON input'')\<close>
  using ParsePayload_closed_switch [of "\<lparr>UIAction_Type = ''bogus'', UIAction_MessageID = [], UIAction_Payload = ''{}''\<rparr>" test_Unmarshal]
    ParsePayload_closed_switch [of \<open>\<lparr>UIAction_Type = ''tool'', UIAction_MessageID = [],
      UIAction_Payload = ''{"toolName":"my_tool","params":{}}''\<rparr>\<close> test_Unmarshal]
    ParsePayload_closed_switch [of "\<lparr>UIAction_Type = ''ui-size-change'', UIAction_MessageID = [], UIAction_Payload = ''{''\<rparr>" test_Unmarshal]
  by (simp add: ActionType_defs test_Unmarshal_def)

section \<open>Properties of the handler adapters\<close>

lemmas Payload_defs = ToolPayload_def IntentPayload_def PromptPayload_def NotifyPayload_def
  LinkPayload_def UISizePayload_def

lemmas Wrap_defs = WrapToolHandler_def WrapIntentHandler_def WrapPromptHandler_def
  WrapNotifyHandler_def WrapLinkHandler_def WrapUISizeHandler_def

text \<open>
  C8. Each of the six adapters, called on a request whose action carries another tag
  than the adapter's, returns the type-mismatch error and no result. The wrapped
  function is not called: the outcome does not depend on it, and the collaborator's
  state is returned as it was.
\<close>

theorem Wrap_type_mismatch:
  assumes "UIActionRequest_Action req = Some a"
  shows
  "(UIAction_Type a \<noteq> ActionTypeTool \<longrightarrow>
      WrapToolHandler js ht req s =
        (Err (Error (''expected tool action, got '' @ UIAction_Type a)), s)) \<and>
   (UIAction_Type a \<noteq> ActionTypeIntent \<longrightarrow>
      WrapIntentHandler js hi req s =
        (Err (Error (''expected intent action, got '' @ UIAction_Type a)), s)) \<and>
   (UIAction_Type a \<noteq> ActionTypePrompt \<longrightarrow>
      WrapPromptHandler js hp req s =
        (Err (Error (''expected prompt action, got '' @ UIAction_Type a)), s)) \<and>
   (UIAction_Type a \<noteq> ActionTypeNotify \<longrightarrow>
      WrapNotifyHandler js hn req s =
        (Err (Error (''expected notify action, got '' @ UIAction_Type a)), s)) \<and>
   (UIAction_Type a \<noteq> ActionTypeLink \<longrightarrow>
      WrapLinkHandler js hl req s =
        (Err (Error (''expected link action, got '' @ UIAction_Type a)), s)) \<and>
   (UIAction_Type a \<noteq> ActionTypeUISize \<longrightarrow>
      WrapUISizeHandler js hu req s =
        (Err (Error (''expected ui-size-change action, got '' @ UIAction_Type a)), s))"
  using assms by (simp add: Wrap_defs)

theorem Wrap_type_mismatch_witness:
  "WrapToolHandler test_Unmarshal echo_tool
     \<lparr>UIActionRequest_Action =
        Some \<lparr>UIAction_Type = ''prompt'', UIAction_MessageID = ''msg-1'',
              UIAction_Payload = ''{}''\<rparr>,
      UIActionRequest_ResourceURI = [], UIActionRequest_Session = ANil\<rparr> 0
   = (Err (Error ''expected tool action, got prompt''), 0) \<and>
   WrapNotifyHandler test_Unmarshal quiet_notify
     \<lparr>UIActionRequest_Action =
        Some \<lparr>UIAction_Type = ''tool'', UIAction_MessageID = ''msg'',
              UIAction_Payload = ''{}''\<rparr>,
      UIActionRequest_ResourceURI = [], UIActionRequest_Session = ANil\<rparr> 0
   = (Err (Error ''expected notify action, got tool''), 0)"
  using
    Wrap_type_mismatch [where a = "\<lparr>UIAction_Type = ''prompt'', UIAction_MessageID = ''msg-1'',
        UIAction_Payload = ''{}''\<rparr>" and s = "0::nat" and ht = echo_tool and js = test_Unmarshal
      and req = "\<lparr>UIActionRequest_Action =
        Some \<lparr>UIAction_Type = ''prompt'', UIAction_MessageID = ''msg-1'',
              UIAction_Payload = ''{}''\<rparr>,
      UIActionRequest_ResourceURI = [], UIActionRequest_Session = ANil\<rparr>"]
    Wrap_type_mismatch [where a = "\<lparr>UIAction_Type = ''tool'', UIAction_MessageID = ''msg'',
        UIAction_Payload = ''{}''\<rparr>" and s = "0::nat" and hn = quiet_notify and js = test_Unmarshal
      and req = "\<lparr>UIActionRequest_Action =
        Some \<lparr>UIAction_Type = ''tool'', UIAction_MessageID = ''msg'',
              UIAction_Payload = ''{}''\<rparr>,
      UIActionRequest_ResourceURI = [], UIActionRequest_Session = ANil\<rparr>"]
  by (simp add: ActionType_defs)

text \<open>
  C7. For each of the six adapters, on a request whose action carries the adapter's tag
  and whose payload decodes: when the wrapped function returns an error, the adapter
  returns a result (not an error) whose \<open>Error\<close> field is that error; when it returns no
  error, the result's \<open>Response\<close> field is the value it returned, or, for the wrapped
  functions that return none, \<open>acknowledged\<close> (notify, size change) or \<open>opened\<close> (link).
\<close>

theorem Wrap_results:
  assumes "UIActionRequest_Action req = Some a"
  shows
  "(UIAction_Type a = ActionTypeTool \<longrightarrow> Unmarshal_Tool js (UIAction_Payload a) = Inr pt \<longrightarrow>
      (ht (ToolActionPayload_ToolName pt) (ToolActionPayload_Params pt) s = ((v, Some e), s') \<longrightarrow>
         WrapToolHandler js ht req s =
           (Ok \<lparr>UIActionResult_Response = ANil, UIActionResult_Error = Some e\<rparr>, s')) \<and>
      (ht (ToolActionPayload_ToolName pt) (ToolActionPayload_Params pt) s = ((v, None), s') \<longrightarrow>
         WrapToolHandler js ht req s =
           (Ok \<lparr>UIActionResult_Response = v, UIActionResult_Error = None\<rparr>, s'))) \<and>
   (UIAction_Type a = ActionTypeIntent \<longrightarrow> Unmarshal_Intent js (UIAction_Payload a) = Inr pi \<longrightarrow>
      (hi (IntentActionPayload_Intent pi) (IntentActionPayload_Params pi) s = ((v, Some e), s') \<longrightarrow>
         WrapIntentHandler js hi req s =
           (Ok \<lparr>UIActionResult_Response = ANil, UIActionResult_Error = Some e\<rparr>, s')) \<and>
      (hi (IntentActionPayload_Intent pi) (IntentActionPayload_Params pi) s = ((v, None), s') \<longrightarrow>
         WrapIntentHandler js hi req s =
           (Ok \<lparr>UIActionResult_Response = v, UIActionResult_Error = None\<rparr>, s'))) \<and>
   (UIAction_Type a = ActionTypePrompt \<longrightarrow> Unmarshal_Prompt js (UIAction_Payload a) = Inr pp \<longrightarrow>
      (hp (PromptActionPayload_Prompt pp) s = ((v, Some e), s') \<longrightarrow>
         WrapPromptHandler js hp req s =
           (Ok \<lparr>UIActionResult_Response = ANil, UIActionResult_Error = Some e\<rparr>, s')) \<and>
      (hp (PromptActionPayload_Prompt pp) s = ((v, None), s') \<longrightarrow>
         WrapPromptHandler js hp req s =
           (Ok \<lparr>UIActionResult_Response = v, UIActionResult_Error = None\<rparr>, s'))) \<and>
   (UIAction_Type a = ActionTypeNotify \<longrightarrow> Unmarshal_Notify js (UIAction_Payload a) = Inr pn \<longrightarrow>
      (hn (NotifyActionPayload_Message pn) (NotifyActionPayload_Level pn) s = (Some e, s') \<longrightarrow>
         WrapNotifyHandler js hn req s =
           (Ok \<lparr>UIActionResult_Response = ANil, UIActionResult_Error = Some e\<rparr>, s')) \<and>
      (hn (NotifyActionPayload_Message pn) (NotifyActionPayload_Level pn) s = (None, s') \<longrightarrow>
         WrapNotifyHandler js hn req s =
           (Ok \<lparr>UIActionResult_Response = AString ''acknowledged'',
                UIActionResult_Error = None\<rparr>, s'))) \<and>
   (UIAction_Type a = ActionTypeLink \<longrightarrow> Unmarshal_Link js (UIAction_Payload a) = Inr pl \<longrightarrow>
      (hl (LinkActionPayload_URL pl) s = (Some e, s') \<longrightarrow>
         WrapLinkHandler js hl req s =
           (Ok \<lparr>UIActionResult_Response = ANil, UIActionResult_Error = Some e\<rparr>, s')) \<and>
      (hl (LinkActionPayload_URL pl) s = (None, s') \<longrightarrow>
         WrapLinkHandler js hl req s =
           (Ok \<lparr>UIActionResult_Response = AString ''opened'',
                UIActionResult_Error = None\<rparr>, s'))) \<and>
   (UIAction_Type a = ActionTypeUISize \<longrightarrow> Unmarshal_UISize js (UIAction_Payload a) = Inr pu \<longrightarrow>
      (hu (UISizeActionPayload_Height pu) (UISizeActionPayload_Width pu) s = (Some e, s') \<longrightarrow>
         WrapUISizeHandler js hu req s =
           (Ok \<lparr>UIActionResult_Response = ANil, UIActionResult_Error = Some e\<rparr>, s')) \<and>
      (hu (UISizeActionPayload_Height pu) (UISizeActionPayload_Width pu) s = (None, s') \<longrightarrow>
         WrapUISizeHandler js hu req s =
           (Ok \<lparr>UIActionResult_Response = AString ''acknowledged'',
                UIActionResult_Error = None\<rparr>, s')))"
  using assms by (simp add: Wrap_defs Payload_defs)

theorem Wrap_results_witness:
  \<open>WrapToolHandler test_Unmarshal echo_tool
     \<lparr>UIActionRequest_Action =
        Some \<lparr>UIAction_Type = ''tool'', UIAction_MessageID = [],
              UIAction_Payload = ''{"toolName":"my_tool","params":{}}''\<rparr>,
      UIActionRequest_ResourceURI = [], UIActionRequest_Session = ANil\<rparr> 0
   = (Ok \<lparr>UIActionResult_Response = AString ''my_tool'', UIActionResult_Error = None\<rparr>, 1) \<and>
   WrapToolHandler test_Unmarshal failing_tool
     \<lparr>UIActionRequest_Action =
        Some \<lparr>UIAction_Type = ''tool'', UIAction_MessageID = [],
              UIAction_Payload = ''{"toolName":"my_tool","params":{}}''\<rparr>,
      UIActionRequest_ResourceURI = [], UIActionRequest_Session = ANil\<rparr> 0
   = (Ok \<lparr>UIActionResult_Response = ANil,
          UIActionResult_Error = Some (Error ''tool failed'')\<rparr>, 1) \<and>
   WrapNotifyHandler test_Unmarshal quiet_notify
     \<lparr>UIActionRequest_Action =
        Some \<lparr>UIAction_Type = ''notify'', UIAction_MessageID = [],
              UIAction_Payload = ''{"message":"Test notification","level":"info"}''\<rparr>,
      UIActionRequest_ResourceURI = [], UIActionRequest_Session = ANil\<rparr> 0
   = (Ok \<lparr>UIActionResult_Response = AString ''acknowledged'', UIActionResult_Error = None\<rparr>, 1) \<and>
   WrapLinkHandler test_Unmarshal quiet_link
     \<lparr>UIActionRequest_Action =
        Some \<lparr>UIAction_Type = ''link'', UIAction_MessageID = [],
              UIAction_Payload = ''{"url":"https://example.com"}''\<rparr>,
      UIActionRequest_ResourceURI = [], UIActionRequest_Session = ANil\<rparr> 0
   = (Ok \<lparr>UIActionResult_Response = AString ''opened'', UIActionResult_Error = None\<rparr>, 1) \<and>
   WrapUISizeHandler test_Unmarshal quiet_size
     \<lparr>UIActionRequest_Action =
        Some \<lparr>UIAction_Type = ''ui-size-change'', UIAction_MessageID = [],
              UIAction_Payload = ''{"height":600,"width":800}''\<rparr>,
      UIActionRequest_ResourceURI = [], UIActionRequest_Session = ANil\<rparr> 0
   = (Ok \<lparr>UIActionResult_Response = AString ''acknowledged'', UIActionResult_Error = None\<rparr>, 1)\<close>
  using
    Wrap_results [where js = test_Unmarshal and s = "0::nat" and s' = "1::nat"
      and ht = echo_tool and v = "AString ''my_tool''"
      and a = \<open>\<lparr>UIAction_Type = ''tool'', UIAction_MessageID = [],
              UIAction_Payload = ''{"toolName":"my_tool","params":{}}''\<rparr>\<close>
      and pt = "\<lparr>ToolActionPayload_ToolName = ''my_tool'', ToolActionPayload_Params = []\<rparr>"
      and req = \<open>\<lparr>UIActionRequest_Action =
        Some \<lparr>UIAction_Type = ''tool'', UIAction_MessageID = [],
              UIAction_Payload = ''{"toolName":"my_tool","params":{}}''\<rparr>,
        UIActionRequest_ResourceURI = [], UIActionRequest_Session = ANil\<rparr>\<close>]
    Wrap_results [where js = test_Unmarshal and s = "0::nat" and s' = "1::nat"
      and ht = failing_tool and v = ANil and e = "Error ''tool failed''"
      and a = \<open>\<lparr>UIAction_Type = ''tool'', UIAction_MessageID = [],
              UIAction_Payload = ''{"toolName":"my_tool","params":{}}''\<rparr>\<close>
      and pt = "\<lparr>ToolActionPayload_ToolName = ''my_tool'', ToolActionPayload_Params = []\<rparr>"
      and req = \<open>\<lparr>UIActionRequest_Action =
        Some \<lparr>UIAction_Type = ''tool'', UIAction_MessageID = [],
              UIAction_Payload = ''{"toolName":"my_tool","params":{}}''\<rparr>,
        UIActionRequest_ResourceURI = [], UIActionRequest_Session = ANil\<rparr>\<close>]
    Wrap_results [where js = test_Unmarshal and s = "0::nat" and s' = "1::nat"
      and hn = quiet_notify
      and a = \<open>\<lparr>UIAction_Type = ''notify'', UIAction_MessageID = [],
              UIAction_Payload = ''{"message":"Test notification","level":"info"}''\<rparr>\<close>
      and pn = "\<lparr>NotifyActionPayload_Message = ''Test notification'',
                  NotifyActionPayload_Level = ''info''\<rparr>"
      and req = \<open>\<lparr>UIActionRequest_Action =
        Some \<lparr>UIAction_Type = ''notify'', UIAction_MessageID = [],
              UIAction_Payload = ''{"message":"Test notification","level":"info"}''\<rparr>,
        UIActionRequest_ResourceURI = [], UIActionRequest_Session = ANil\<rparr>\<close>]
    Wrap_results [where js = test_Unmarshal and s = "0::nat" and s' = "1::nat"
      and hl = quiet_link
      and a = \<open>\<lparr>UIAction_Type = ''link'', UIAction_MessageID = [],
              UIAction_Payload = ''{"url":"https://example.com"}''\<rparr>\<close>
      and pl = "\<lparr>LinkActionPayload_URL = ''https://example.com''\<rparr>"
      and req = \<open>\<lparr>UIActionRequest_Action =
        Some \<lparr>UIAction_Type = ''link'', UIAction_MessageID = [],
              UIAction_Payload = ''{"url":"https://example.com"}''\<rparr>,
        UIActionRequest_ResourceURI = [], UIActionRequest_Session = ANil\<rparr>\<close>]
    Wrap_results [where js = test_Unmarshal and s = "0::nat" and s' = "1::nat"
      and hu = quiet_size
      and a = \<open>\<lparr>UIAction_Type = ''ui-size-change'', UIAction_MessageID = [],
              UIAction_Payload = ''{"height":600,"width":800}''\<rparr>\<close>
      and pu = "\<lparr>UISizeActionPayload_Height = 600, UISizeActionPayload_Width = 800\<rparr>"
      and req = \<open>\<lparr>UIActionRequest_Action =
        Some \<lparr>UIAction_Type = ''ui-size-change'', UIAction_MessageID = [],
              UIAction_Payload = ''{"height":600,"width":800}''\<rparr>,
        UIActionRequest_ResourceURI = [], UIActionRequest_Session = ANil\<rparr>\<close>]
  by (simp add: ActionType_defs test_Unmarshal_def echo_tool_def failing_tool_def
        quiet_notify_def quiet_link_def quiet_size_def)

section \<open>The base64 encoding is inverted by the decoding\<close>

lemma six_bits: "unat ((x :: 64 word) AND 0x3F) < 64"
proof -
  have "x AND 0x3F = take_bit 6 x" by (simp add: take_bit_eq_mask mask_eq_exp_minus_1)
  then show ?thesis
    using take_bit_nat_less_exp [of 6 "unat x"] by (simp add: unsigned_take_bit_eq)
qed

lemma quantum_0: "ucast (drop_bit 16 (quantum a b c)) = a"
  unfolding quantum_def
  by (rule bit_word_eqI) (auto simp add: bit_simps dest: bit_imp_le_length)

lemma quantum_1: "ucast (drop_bit 8 (quantum a b c)) = b"
  unfolding quantum_def
  by (rule bit_word_eqI) (auto simp add: bit_simps dest: bit_imp_le_length)

lemma quantum_2: "ucast (quantum a b c) = c"
  unfolding quantum_def
  by (rule bit_word_eqI) (auto simp add: bit_simps dest: bit_imp_le_length)


lemma sixty_three: "(0x3F :: 64 word) = mask 6"
  by (simp add: mask_eq_exp_minus_1)


lemma bit_sextet:
  "bit (push_bit k (ucast (ucast (drop_bit k v AND mask 6 :: 64 word) :: byte)) :: 64 word) n
     \<longleftrightarrow> k \<le> n \<and> n < k + 6 \<and> n < 64 \<and> bit v n"
  by (auto simp add: bit_simps dest: bit_imp_le_length)

lemma bit_sextet_0:
  "bit (ucast (ucast (v AND mask 6 :: 64 word) :: byte) :: 64 word) n
     \<longleftrightarrow> n < 6 \<and> bit v n"
  by (auto simp add: bit_simps dest: bit_imp_le_length)

lemma bit_quantum:
  "bit (quantum a b c) n \<longleftrightarrow>
     (n < 8 \<and> bit c n) \<or> (8 \<le> n \<and> n < 16 \<and> bit b (n - 8)) \<or>
     (16 \<le> n \<and> n < 24 \<and> bit a (n - 16))"
  unfolding quantum_def
  by (auto simp add: bit_simps dest: bit_imp_le_length)


lemma assemble_3:
  "assemble (ucast (drop_bit 18 (quantum a b c) AND 0x3F))
            (ucast (drop_bit 12 (quantum a b c) AND 0x3F))
            (ucast (drop_bit 6 (quantum a b c) AND 0x3F))
            (ucast (quantum a b c AND 0x3F)) = quantum a b c"
  unfolding assemble_def sixty_three
  apply (rule bit_word_eqI)
  apply (simp only: bit_or_iff bit_sextet bit_sextet_0)
  apply (auto simp add: bit_quantum)
  done

lemma assemble_2:
  "assemble (ucast (drop_bit 18 (quantum a b 0) AND 0x3F))
            (ucast (drop_bit 12 (quantum a b 0) AND 0x3F))
            (ucast (drop_bit 6 (quantum a b 0) AND 0x3F)) 0 = quantum a b 0"
  unfolding assemble_def sixty_three
  apply (rule bit_word_eqI)
  apply (simp only: bit_or_iff bit_sextet bit_sextet_0 unsigned_0 push_bit_of_0 or.right_neutral)
  apply (auto simp add: bit_quantum)
  done

lemma assemble_1:
  "assemble (ucast (drop_bit 18 (quantum a 0 0) AND 0x3F))
            (ucast (drop_bit 12 (quantum a 0 0) AND 0x3F)) 0 0 = quantum a 0 0"
  unfolding assemble_def sixty_three
  apply (rule bit_word_eqI)
  apply (simp only: bit_or_iff bit_sextet bit_sextet_0 unsigned_0 push_bit_of_0 or.right_neutral)
  apply (auto simp add: bit_quantum)
  done


lemma index_of_nth:
  "distinct xs \<Longrightarrow> n < length xs \<Longrightarrow> index_of (xs ! n) xs = Some n"
proof (induction xs arbitrary: n)
  case Nil
  then show ?case by simp
next
  case (Cons x xs)
  show ?case
  proof (cases n)
    case 0
    then show ?thesis by simp
  next
    case (Suc m)
    with Cons.prems have "xs ! m \<in> set xs" "x \<notin> set xs" by simp_all
    then have "xs ! m \<noteq> x" by blast
    with Suc Cons show ?thesis by simp
  qed
qed

lemma distinct_encodeStd: "distinct encodeStd"
  by (simp add: encodeStd_def)

lemma length_encodeStd: "length encodeStd = 64"
  by (simp add: encodeStd_def)

lemma decodeMap_sextet:
  "decodeMap (sextet val k) = Some (ucast (drop_bit k val AND 0x3F))"
proof -
  have "unat (drop_bit k val AND 0x3F) < length encodeStd"
    using six_bits [of "drop_bit k val"] by (simp add: length_encodeStd)
  then show ?thesis
    by (simp add: decodeMap_def sextet_def index_of_nth [OF distinct_encodeStd])
qed

lemma sextet_in_alphabet: "sextet val k \<in> set encodeStd"
  unfolding sextet_def
  using six_bits [of "drop_bit k val"] by (simp add: length_encodeStd)

lemma sextet_not_pad: "sextet val k \<noteq> CHR ''=''"
  using sextet_in_alphabet [of val k] by (auto simp add: encodeStd_def)

lemma sextet_not_newline: "sextet val k \<noteq> CHR 0x0A \<and> sextet val k \<noteq> CHR 0x0D"
  using sextet_in_alphabet [of val k] by (auto simp add: encodeStd_def)

lemma decode_quanta_EncodeToString: "decode_quanta (EncodeToString d) = Some d"
proof (induction d rule: EncodeToString.induct)
  case (1 a b c rest)
  then show ?case
    by (simp add: Let_def decodeMap_sextet sextet_not_pad assemble_3 quantum_0 quantum_1 quantum_2)
next
  case (2 a b)
  then show ?case
    by (simp add: Let_def decodeMap_sextet sextet_not_pad assemble_2 quantum_0 quantum_1)
next
  case (3 a)
  then show ?case
    by (simp add: Let_def decodeMap_sextet sextet_not_pad assemble_1 quantum_0)
next
  case 4
  then show ?case by simp
qed

lemma EncodeToString_no_newline:
  "filter (\<lambda>c. c \<noteq> CHR 0x0A \<and> c \<noteq> CHR 0x0D) (EncodeToString d) = EncodeToString d"
  by (induction d rule: EncodeToString.induct) (simp_all add: Let_def sextet_not_newline)

lemma DecodeString_EncodeToString: "DecodeString (EncodeToString d) = Inr d"
  by (simp add: DecodeString_def EncodeToString_no_newline decode_quanta_EncodeToString)

lemma EncodeToString_empty: "EncodeToString d = [] \<longleftrightarrow> d = []"
  by (induction d rule: EncodeToString.induct) (simp_all add: Let_def)

section \<open>The wire envelope is read back as written\<close>

lemma unmarshal_strings_map: "unmarshal_strings (map JString ss) = Inr ss"
  by (induction ss) (simp_all add: unmarshal_string_def)

lemma unmarshal_marshal_Annotations:
  assumes "marshal_Annotations a = Inr j"
  shows "unmarshal_Annotations (Some j) = Inr (Some a)"
proof (cases "Annotations_Priority a")
  case None
  with assms show ?thesis
    by (cases "Annotations_Audience a = []")
       (auto simp add: marshal_Annotations_def unmarshal_Annotations_def unmarshal_Audience_def
          unmarshal_Priority_def unmarshal_strings_map)
next
  case (Some p)
  with assms show ?thesis
    by (cases "Annotations_Audience a = []")
       (auto simp add: marshal_Annotations_def unmarshal_Annotations_def unmarshal_Audience_def
          unmarshal_Priority_def unmarshal_strings_map split: if_splits)
qed



lemma unmarshal_marshal_wireUIContent:
  assumes "marshal_wireUIContent w = Inr j"
  shows "unmarshal_wireUIContent j = Inr w"
proof (cases "wireUIContent_Annotations w")
  case None
  with assms show ?thesis
    by (cases "wireUIContent_Text w = []"; cases "wireUIContent_Blob w = []")
       (auto simp add: marshal_wireUIContent_def unmarshal_wireUIContent_def
          unmarshal_string_def unmarshal_Annotations_def)
next
  case (Some a)
  with assms obtain ja where ja: "marshal_Annotations a = Inr ja"
    by (auto simp add: marshal_wireUIContent_def Let_def split: sum.splits)
  note rt = unmarshal_marshal_Annotations [OF ja]
  from assms Some ja rt show ?thesis
    by (cases "wireUIContent_Text w = []"; cases "wireUIContent_Blob w = []")
       (auto simp add: marshal_wireUIContent_def unmarshal_wireUIContent_def
          unmarshal_string_def)
qed







lemma strings_Index_framework:
  "strings_Index (''application/vnd.mcp-ui.remote-dom+javascript; framework='' @ fw) ''framework=''
     = Some 46"
  by simp

lemma strings_Index_no_framework:
  "strings_Index ''application/vnd.mcp-ui.remote-dom+javascript'' ''framework='' = None"
  by simp
















text \<open>
  The other ways a variant is not decoded back, each at an input: a framework tag is cut
  at its first space, a blob whose MIME type is \<open>text/html\<close> is decoded as inline HTML,
  and an infinite priority cannot be encoded.
\<close>

lemma Decode_Encode_framework_cut:
  "Decode_Encode
     (RemoteDOM \<lparr>RemoteDOMContent_Script = ''x'',
                 RemoteDOMContent_Framework = ''my framework'',
                 RemoteDOMContent_Annotations = None\<rparr>)
   = Inr (RemoteDOM \<lparr>RemoteDOMContent_Script = ''x'',
                      RemoteDOMContent_Framework = ''my'',
                      RemoteDOMContent_Annotations = None\<rparr>)"
  by (simp add: Decode_Encode_def RemoteDOMContent_MarshalJSON_def marshal_wireUIContent_def
        unmarshal_wireUIContent_def unmarshal_string_def unmarshal_Annotations_def
        ContentFromWire_def RemoteDOMContent_fromWire_def
        MIMETypeHTML_def MIMETypeURLList_def MIMETypeRemoteDOM_def)

lemma Decode_Encode_blob_as_html:
  "Decode_Encode
     (Blob \<lparr>BlobContent_Data = [1],
            BlobContent_ContentMIMEType = ''text/html'',
            BlobContent_Annotations = None\<rparr>)
   = Inr (HTML \<lparr>HTMLContent_HTML = [], HTMLContent_Annotations = None\<rparr>)"
proof -
  have "EncodeToString [1] = ''AQ==''" by code_simp
  then show ?thesis
    by (simp add: Decode_Encode_def BlobContent_MarshalJSON_def marshal_wireUIContent_def
          unmarshal_wireUIContent_def unmarshal_string_def unmarshal_Annotations_def
          ContentFromWire_def HTMLContent_fromWire_def MIMETypeHTML_def Let_def
        del: EncodeToString.simps)
qed

lemma Decode_Encode_infinite_priority:
  "Decode_Encode
     (HTML \<lparr>HTMLContent_HTML = ''<p>Hello</p>'',
            HTMLContent_Annotations =
              Some \<lparr>Annotations_Audience = [],
                    Annotations_Priority = Some 0x7FF0000000000000\<rparr>\<rparr>)
   = Inl (Error ''json: unsupported value: +Inf'')"
  by (simp add: Decode_Encode_def HTMLContent_MarshalJSON_def marshal_wireUIContent_def
        marshal_Annotations_def float64_finite_def FormatFloat_special_def)

section \<open>The blob member\<close>

lemma object_field_blob_wire:
  assumes "marshal_wireUIContent w = Inr j"
  shows "object_field j ''blob'' =
           (if wireUIContent_Blob w = [] then None else Some (JString (wireUIContent_Blob w)))"
  using assms
  by (cases "wireUIContent_Annotations w"; cases "wireUIContent_Text w = []")
     (auto simp add: marshal_wireUIContent_def Let_def split: sum.splits)

lemma object_field_blob_resource:
  assumes "UIResourceContents_MarshalJSON r = Inr j" and "UIResourceContents_Blob r = Some b"
  shows "object_field j ''blob'' = Some (JString (EncodeToString b))"
  using assms
  by (cases "UIResourceContents_Annotations r"; cases "UIResourceContents_MIMEType r = []")
     (auto simp add: UIResourceContents_MarshalJSON_def marshal_br_def
        marshal_annotations_member_def split: if_splits sum.splits)

text \<open>
  C3 (as amended). Encoding a binary variant writes the member \<open>blob\<close>, holding the
  base64 text of the data, exactly when the data has at least one byte; for zero bytes
  the member is left out (the wire struct tags it \<open>omitempty\<close>). It is the serialized
  resource contents that always hold \<open>blob\<close> when their \<open>Blob\<close> is not nil, also when it
  is empty.
\<close>

theorem blob_member_written:
  "(MarshalJSON (Blob c) = Inr j \<longrightarrow>
      object_field j ''blob'' =
        (if BlobContent_Data c = [] then None
         else Some (JString (EncodeToString (BlobContent_Data c))))) \<and>
   (UIResourceContents_MarshalJSON r = Inr j' \<longrightarrow> UIResourceContents_Blob r = Some b \<longrightarrow>
      object_field j' ''blob'' = Some (JString (EncodeToString b)))"
  using object_field_blob_wire object_field_blob_resource
  by (auto simp add: BlobContent_MarshalJSON_def EncodeToString_empty)

theorem blob_member_written_witness:
  "MarshalJSON (Blob \<lparr>BlobContent_Data = [0x89, 0x50, 0x4E, 0x47],
                       BlobContent_ContentMIMEType = ''image/png'',
                       BlobContent_Annotations = None\<rparr>)
     = Inr (JObject [(''mimeType'', JString ''image/png''), (''blob'', JString ''iVBORw=='')]) \<and>
   object_field
     (JObject [(''mimeType'', JString ''image/png''), (''blob'', JString ''iVBORw=='')]) ''blob''
     = Some (JString ''iVBORw=='') \<and>
   UIResourceContents_MarshalJSON
     \<lparr>UIResourceContents_URI = ''ui://empty/data'',
      UIResourceContents_MIMEType = ''application/octet-stream'',
      UIResourceContents_Text = [], UIResourceContents_Blob = Some [],
      UIResourceContents_Annotations = None\<rparr>
     = Inr (JObject [(''uri'', JString ''ui://empty/data''),
                     (''mimeType'', JString ''application/octet-stream''),
                     (''blob'', JString [])]) \<and>
   object_field
     (JObject [(''uri'', JString ''ui://empty/data''),
               (''mimeType'', JString ''application/octet-stream''),
               (''blob'', JString [])]) ''blob''
     = Some (JString [])"
proof -
  have e: "EncodeToString [0x89, 0x50, 0x4E, 0x47] = ''iVBORw==''"
    by code_simp
  have m: "MarshalJSON (Blob \<lparr>BlobContent_Data = [0x89, 0x50, 0x4E, 0x47],
                              BlobContent_ContentMIMEType = ''image/png'',
                              BlobContent_Annotations = None\<rparr>)
           = Inr (JObject [(''mimeType'', JString ''image/png''), (''blob'', JString ''iVBORw=='')])"
    by (simp add: BlobContent_MarshalJSON_def marshal_wireUIContent_def e Let_def
          del: EncodeToString.simps)
  have r: "UIResourceContents_MarshalJSON
             \<lparr>UIResourceContents_URI = ''ui://empty/data'',
              UIResourceContents_MIMEType = ''application/octet-stream'',
              UIResourceContents_Text = [], UIResourceContents_Blob = Some [],
              UIResourceContents_Annotations = None\<rparr>
           = Inr (JObject [(''uri'', JString ''ui://empty/data''),
                           (''mimeType'', JString ''application/octet-stream''),
                           (''blob'', JString [])])"
    by (simp add: UIResourceContents_MarshalJSON_def marshal_br_def marshal_annotations_member_def)
  from blob_member_written [of "\<lparr>BlobContent_Data = [0x89, 0x50, 0x4E, 0x47],
                              BlobContent_ContentMIMEType = ''image/png'',
                              BlobContent_Annotations = None\<rparr>"
      "JObject [(''mimeType'', JString ''image/png''), (''blob'', JString ''iVBORw=='')]"
      "\<lparr>UIResourceContents_URI = ''ui://empty/data'',
              UIResourceContents_MIMEType = ''application/octet-stream'',
              UIResourceContents_Text = [], UIResourceContents_Blob = Some [],
              UIResourceContents_Annotations = None\<rparr>"
      "JObject [(''uri'', JString ''ui://empty/data''),
                           (''mimeType'', JString ''application/octet-stream''),
                           (''blob'', JString [])]" "[]"] m r e
  show ?thesis by simp
qed

text \<open>
  The claim as stated fails: the wire form of a zero-byte binary variant has the MIME
  type as its only member.
\<close>

theorem blob_member_omitted_counterexample:
  "MarshalJSON (Blob \<lparr>BlobContent_Data = [],
                       BlobContent_ContentMIMEType = ''application/octet-stream'',
                       BlobContent_Annotations = None\<rparr>)
     = Inr (JObject [(''mimeType'', JString ''application/octet-stream'')]) \<and>
   object_field (JObject [(''mimeType'', JString ''application/octet-stream'')]) ''blob'' = None"
  by (simp add: BlobContent_MarshalJSON_def marshal_wireUIContent_def)

section \<open>Properties of the resource contents\<close>

lemma NewUIResourceContents_wire:
  assumes "MarshalJSON v = marshal_wireUIContent w"
    and "NewUIResourceContents uri (Some v) = Inr rc"
  shows "uri \<noteq> [] \<and>
     (if wireUIContent_Blob w \<noteq> []
      then (case DecodeString (wireUIContent_Blob w) of
              Inl err \<Rightarrow> False
            | Inr decoded \<Rightarrow>
               rc = \<lparr>UIResourceContents_URI = uri,
                     UIResourceContents_MIMEType = wireUIContent_MIMEType w,
                     UIResourceContents_Text = [],
                     UIResourceContents_Blob = Some decoded,
                     UIResourceContents_Annotations = wireUIContent_Annotations w\<rparr>)
      else rc = \<lparr>UIResourceContents_URI = uri,
                 UIResourceContents_MIMEType = wireUIContent_MIMEType w,
                 UIResourceContents_Text = wireUIContent_Text w,
                 UIResourceContents_Blob = None,
                 UIResourceContents_Annotations = wireUIContent_Annotations w\<rparr>)"
proof -
  from assms(2) have uri: "uri \<noteq> []"
    by (auto simp add: NewUIResourceContents_def split: if_splits)
  with assms obtain j where j: "marshal_wireUIContent w = Inr j"
    by (auto simp add: NewUIResourceContents_def split: sum.splits)
  note wire = unmarshal_marshal_wireUIContent [OF j]
  from assms uri j wire show ?thesis
    by (auto simp add: NewUIResourceContents_def Let_def split: sum.splits if_splits)
qed

lemma NewUIResourceContents_body:
  assumes "NewUIResourceContents uri (Some v) = Inr rc"
  shows "(UIResourceContents_Text rc = [] \<and> UIResourceContents_Blob rc = None) = body_empty v"
    and "\<not> (UIResourceContents_Text rc \<noteq> [] \<and> UIResourceContents_Blob rc \<noteq> None)"
proof -
  have both: "((UIResourceContents_Text rc = [] \<and> UIResourceContents_Blob rc = None) = body_empty v) \<and>
      \<not> (UIResourceContents_Text rc \<noteq> [] \<and> UIResourceContents_Blob rc \<noteq> None)"
  proof (cases v)
    case (HTML c)
    with NewUIResourceContents_wire [OF _ assms,
        of "\<lparr>wireUIContent_MIMEType = MIMETypeHTML, wireUIContent_Text = HTMLContent_HTML c,
             wireUIContent_Blob = [], wireUIContent_Annotations = HTMLContent_Annotations c\<rparr>"]
    show ?thesis by (simp add: HTMLContent_MarshalJSON_def)
  next
    case (URL c)
    with NewUIResourceContents_wire [OF _ assms,
        of "\<lparr>wireUIContent_MIMEType = MIMETypeURLList, wireUIContent_Text = URLContent_URL c,
             wireUIContent_Blob = [], wireUIContent_Annotations = URLContent_Annotations c\<rparr>"]
    show ?thesis by (simp add: URLContent_MarshalJSON_def)
  next
    case (RemoteDOM c)
    with NewUIResourceContents_wire [OF _ assms,
        of "\<lparr>wireUIContent_MIMEType = RemoteDOMContent_mimeType c,
             wireUIContent_Text = RemoteDOMContent_Script c,
             wireUIContent_Blob = [],
             wireUIContent_Annotations = RemoteDOMContent_Annotations c\<rparr>"]
    show ?thesis
      by (simp add: RemoteDOMContent_MarshalJSON_def RemoteDOMContent_mimeType_def Let_def)
  next
    case (Blob c)
    with NewUIResourceContents_wire [OF _ assms,
        of "\<lparr>wireUIContent_MIMEType = BlobContent_ContentMIMEType c,
             wireUIContent_Text = [],
             wireUIContent_Blob = EncodeToString (BlobContent_Data c),
             wireUIContent_Annotations = BlobContent_Annotations c\<rparr>"]
    show ?thesis
      by (cases "BlobContent_Data c = []")
         (simp_all add: BlobContent_MarshalJSON_def EncodeToString_empty
            DecodeString_EncodeToString)
  qed
  from both show "(UIResourceContents_Text rc = [] \<and> UIResourceContents_Blob rc = None) = body_empty v"
    by blast
  from both show "\<not> (UIResourceContents_Text rc \<noteq> [] \<and> UIResourceContents_Blob rc \<noteq> None)"
    by blast
qed

text \<open>
  C5 (as amended). Serializing resource contents that have both a non-empty text and a
  non-nil blob fails with a validation error. Resource contents built by
  \<open>NewUIResourceContents\<close> never have both, and have neither text nor blob exactly when
  the body of the source variant is empty: a binary variant of zero bytes, or an
  inline-HTML, URL or script variant whose text is empty.
\<close>

theorem resource_contents_exclusive:
  "(UIResourceContents_Text r \<noteq> [] \<longrightarrow> UIResourceContents_Blob r \<noteq> None \<longrightarrow>
      UIResourceContents_MarshalJSON r =
        Inl (Error (if UIResourceContents_URI r = [] then ''UIResourceContents missing URI''
                    else ''UIResourceContents has non-zero Text and Blob fields''))) \<and>
   (NewUIResourceContents uri (Some v) = Inr rc \<longrightarrow>
      ((UIResourceContents_Text rc = [] \<and> UIResourceContents_Blob rc = None) = body_empty v) \<and>
      \<not> (UIResourceContents_Text rc \<noteq> [] \<and> UIResourceContents_Blob rc \<noteq> None))"
  using NewUIResourceContents_body [of uri v rc]
  by (auto simp add: UIResourceContents_MarshalJSON_def)

theorem resource_contents_exclusive_witness:
  "UIResourceContents_MarshalJSON
     \<lparr>UIResourceContents_URI = ''ui://invalid/both'',
      UIResourceContents_MIMEType = ''text/html'',
      UIResourceContents_Text = ''text'',
      UIResourceContents_Blob = Some [1, 2, 3],
      UIResourceContents_Annotations = None\<rparr>
   = Inl (Error ''UIResourceContents has non-zero Text and Blob fields'') \<and>
   NewUIResourceContents ''ui://empty/data''
     (Some (Blob \<lparr>BlobContent_Data = [],
                  BlobContent_ContentMIMEType = ''application/octet-stream'',
                  BlobContent_Annotations = None\<rparr>))
   = Inr \<lparr>UIResourceContents_URI = ''ui://empty/data'',
          UIResourceContents_MIMEType = ''application/octet-stream'',
          UIResourceContents_Text = [],
          UIResourceContents_Blob = None,
          UIResourceContents_Annotations = None\<rparr> \<and>
   body_empty (Blob \<lparr>BlobContent_Data = [],
                     BlobContent_ContentMIMEType = ''application/octet-stream'',
                     BlobContent_Annotations = None\<rparr>)"
proof -
  have n: "NewUIResourceContents ''ui://empty/data''
     (Some (Blob \<lparr>BlobContent_Data = [],
                  BlobContent_ContentMIMEType = ''application/octet-stream'',
                  BlobContent_Annotations = None\<rparr>))
   = Inr \<lparr>UIResourceContents_URI = ''ui://empty/data'',
          UIResourceContents_MIMEType = ''application/octet-stream'',
          UIResourceContents_Text = [],
          UIResourceContents_Blob = None,
          UIResourceContents_Annotations = None\<rparr>"
    by (simp add: NewUIResourceContents_def BlobContent_MarshalJSON_def
          marshal_wireUIContent_def unmarshal_wireUIContent_def unmarshal_string_def
          unmarshal_Annotations_def)
  from n resource_contents_exclusive [of
      "\<lparr>UIResourceContents_URI = ''ui://invalid/both'',
        UIResourceContents_MIMEType = ''text/html'',
        UIResourceContents_Text = ''text'',
        UIResourceContents_Blob = Some [1, 2, 3],
        UIResourceContents_Annotations = None\<rparr>"
      "''ui://empty/data''"
      "Blob \<lparr>BlobContent_Data = [],
             BlobContent_ContentMIMEType = ''application/octet-stream'',
             BlobContent_Annotations = None\<rparr>"
      "\<lparr>UIResourceContents_URI = ''ui://empty/data'',
        UIResourceContents_MIMEType = ''application/octet-stream'',
        UIResourceContents_Text = [],
        UIResourceContents_Blob = None,
        UIResourceContents_Annotations = None\<rparr>"]
  show ?thesis by simp
qed

text \<open>
  The claim as stated fails at empty markup: the resource contents of an inline-HTML
  variant with no markup have neither text nor blob, and the variant is not binary.
\<close>

theorem resource_contents_empty_text_counterexample:
  "NewUIResourceContents ''ui://greeting/hello''
     (Some (HTML \<lparr>HTMLContent_HTML = [], HTMLContent_Annotations = None\<rparr>))
   = Inr \<lparr>UIResourceContents_URI = ''ui://greeting/hello'',
          UIResourceContents_MIMEType = ''text/html'',
          UIResourceContents_Text = [],
          UIResourceContents_Blob = None,
          UIResourceContents_Annotations = None\<rparr>"
  by (simp add: NewUIResourceContents_def HTMLContent_MarshalJSON_def marshal_wireUIContent_def
        unmarshal_wireUIContent_def unmarshal_string_def unmarshal_Annotations_def
        MIMETypeHTML_def)

end
